theory Spec2Isabelle
  imports Main "HOL-Library.Word" "HOL-Library.AList"
begin

section \<open>The connection pool of simpledb-mcp (internal/database/pool.go)\<close>

text \<open>
  The pool is a registry of named entries, each holding a raw database handle and
  health metadata. The model is sequential: every public method of the pool takes the
  pool-wide lock for its whole body, and the health check is modelled as one
  uninterrupted pass. The collaborators (clock, credential store, SQL driver) are
  passed in as environment records, one field per call site.
\<close>

subsection \<open>Time\<close>

text \<open>
  A \<open>time.Time\<close> is an instant, counted here in nanoseconds from the zero value of
  \<open>time.Time\<close>. A \<open>time.Duration\<close> is an int64 count of nanoseconds; \<open>Time.Sub\<close>
  saturates at the largest and smallest duration.
\<close>

type_synonym time = int
type_synonym duration = int

definition zeroTime :: time where
  "zeroTime = 0"

definition maxDuration :: duration where
  "maxDuration = 2 ^ 63 - 1"

definition minDuration :: duration where
  "minDuration = - (2 ^ 63)"

definition Hour :: duration where
  "Hour = 3600 * 1000000000"

definition time_Sub :: "time \<Rightarrow> time \<Rightarrow> duration" where
  "time_Sub t u =
     (let d = t - u
      in if maxDuration < d then maxDuration
         else if d < minDuration then minDuration
         else d)"

subsection \<open>Configuration (internal/config/config.go)\<close>

record Connection =
  Type :: string
  Host :: string
  Port :: int
  Database :: string
  SSLMode :: string
  Username :: string

record ConnectionPoolSettings =
  PingInterval :: duration
  MaxIdleTime :: duration
  MaxErrorCount :: "64 word"
  ReconnectDelay :: duration
  EnableKeepalive :: bool

record Config =
  Connections :: "string \<rightharpoonup> Connection"
  Settings_ConnectionPool :: ConnectionPoolSettings

definition Config_GetConnection :: "Config \<Rightarrow> string \<Rightarrow> Connection option" where
  "Config_GetConnection c name = Connections c name"

subsection \<open>Errors\<close>

text \<open>
  One constructor per \<open>fmt.Errorf\<close> call site; the wrapped error (verb \<open>%w\<close>) is the
  last argument. \<open>Collaborator\<close> is an error value produced by the credential store or by
  the SQL driver.
\<close>

datatype error =
    Collaborator string
  | NotFoundInConfiguration string
  | FailedToGetCredentials string error
  | UnsupportedDatabaseType string
  | FailedToBuildConnectionString error
  | FailedToOpen error
  | FailedToPing error

fun Unwrap :: "error \<Rightarrow> error option" where
  "Unwrap (FailedToGetCredentials n e) = Some e"
| "Unwrap (FailedToBuildConnectionString e) = Some e"
| "Unwrap (FailedToOpen e) = Some e"
| "Unwrap (FailedToPing e) = Some e"
| "Unwrap e = None"

subsection \<open>Pool data (pool.go, lines 14-73)\<close>

datatype ConnectionState =
    StateDisconnected
  | StateConnecting
  | StateConnected
  | StateError
  | StateIdle

text \<open>A \<open>*sql.DB\<close> is identified by a number; \<open>None\<close> is the nil pointer.\<close>

type_synonym handle = nat

record PooledConnection =
  Name :: string
  DB :: "handle option"
  Config :: Connection
  State :: ConnectionState
  LastUsed :: time
  LastPing :: time
  ErrorCount :: "64 word"
  CreatedAt :: time

text \<open>
  The registry \<open>map[string]*PooledConnection\<close> is an association list; a Go map has
  one entry per key, which is the invariant \<open>wf_registry\<close> below. Lookup is \<open>map_of\<close>,
  assignment is \<open>AList.update\<close>, \<open>delete\<close> is \<open>AList.delete\<close>, \<open>range\<close> visits the
  list in order, \<open>len\<close> is \<open>length\<close>. The pool reaches its manager only for the
  configuration, kept here as the field \<open>manager_config\<close>.
\<close>

record ConnectionPool =
  connections :: "(string \<times> PooledConnection) list"
  manager_config :: Config
  pingInterval :: duration
  maxIdleTime :: duration
  maxErrorCount :: "64 word"
  reconnectDelay :: duration
  totalConnections :: "64 word"
  successfulPings :: "64 word"
  failedPings :: "64 word"

text \<open>Effects on the outside world, in the order the code performs them.\<close>

datatype event =
    EvSetMaxOpenConns handle int
  | EvSetMaxIdleConns handle int
  | EvSetConnMaxLifetime handle duration
  | EvSetConnMaxIdleTime handle duration
  | EvClose handle
  | EvDelete string

definition NewConnectionPool :: "Config \<Rightarrow> ConnectionPool" where
  "NewConnectionPool cfg =
     (let poolConfig = Settings_ConnectionPool cfg
      in \<lparr>connections = [],
          manager_config = cfg,
          pingInterval = PingInterval poolConfig,
          maxIdleTime = MaxIdleTime poolConfig,
          maxErrorCount = MaxErrorCount poolConfig,
          reconnectDelay = ReconnectDelay poolConfig,
          totalConnections = 0,
          successfulPings = 0,
          failedPings = 0\<rparr>)"

definition wf_registry :: "ConnectionPool \<Rightarrow> bool" where
  "wf_registry p = distinct (map fst (connections p))"

definition registry_configured :: "ConnectionPool \<Rightarrow> bool" where
  "registry_configured p =
     list_all (\<lambda>name. Config_GetConnection (manager_config p) name \<noteq> None)
       (map fst (connections p))"

subsection \<open>Opening a raw connection (database.go, lines 61-111)\<close>

record Credential =
  cred_Username :: string
  cred_Password :: string

text \<open>Decimal printing of an integer, as the verb \<open>%d\<close> does.\<close>

function show_nat :: "nat \<Rightarrow> string" where
  "show_nat n =
     (if n < 10 then [char_of (48 + n)]
      else show_nat (n div 10) @ [char_of (48 + n mod 10)])"
  by pat_completeness auto
termination
  by (relation "measure id") auto

definition show_int :: "int \<Rightarrow> string" where
  "show_int i = (if i < 0 then CHR ''-'' # show_nat (nat (- i)) else show_nat (nat i))"

definition buildDSN :: "Connection \<Rightarrow> string \<Rightarrow> string \<Rightarrow> error + string" where
  "buildDSN conn username password =
     (if Type conn = ''mysql'' then
        (if username = '''' then
           Inr (''tcp('' @ Host conn @ '':'' @ show_int (Port conn) @ '')/'' @ Database conn)
         else
           Inr (username @ '':'' @ password @ ''@tcp('' @ Host conn @ '':''
                @ show_int (Port conn) @ '')/'' @ Database conn))
      else if Type conn = ''postgres'' then
        (let dsn0 = ''host='' @ Host conn @ '' port='' @ show_int (Port conn)
                    @ '' dbname='' @ Database conn;
             dsn1 = (if username \<noteq> '''' then
                       dsn0 @ '' user='' @ username @ '' password='' @ password
                     else dsn0);
             dsn2 = (if SSLMode conn \<noteq> '''' then dsn1 @ '' sslmode='' @ SSLMode conn
                     else dsn1 @ '' sslmode=prefer'')
         in Inr dsn2)
      else Inl (UnsupportedDatabaseType (Type conn)))"

text \<open>
  What \<open>GetConnection\<close> asks of the outside world: the four clock readings
  (pool.go lines 108, 135, 136 and 172), the credential store, \<open>sql.Open\<close> and the
  first \<open>db.Ping\<close>.
\<close>

record GetEnv =
  now_touch :: time
  now_createdAt :: time
  now_lastUsed :: time
  now_lastPing :: time
  credManager_Get :: "string \<Rightarrow> string \<Rightarrow> error + Credential"
  sql_Open :: "string \<Rightarrow> string \<Rightarrow> error + handle"
  db_Ping :: "handle \<Rightarrow> error option"

definition createRawConnection :: "GetEnv \<Rightarrow> Connection \<Rightarrow> string \<Rightarrow> error + handle" where
  "createRawConnection env connConfig connectionName =
     (case (if Username connConfig \<noteq> '''' then
              (case credManager_Get env connectionName (Username connConfig) of
                 Inl err \<Rightarrow> Inl (FailedToGetCredentials connectionName err)
               | Inr cred \<Rightarrow> Inr (cred_Username cred, cred_Password cred))
            else Inr ('''', '''')) of
        Inl e \<Rightarrow> Inl e
      | Inr (username, password) \<Rightarrow>
          (case buildDSN connConfig username password of
             Inl err \<Rightarrow> Inl (FailedToBuildConnectionString err)
           | Inr dsn \<Rightarrow>
               (case sql_Open env (Type connConfig) dsn of
                  Inl err \<Rightarrow> Inl (FailedToOpen err)
                | Inr db \<Rightarrow> Inr db)))"

subsection \<open>GetConnection and createConnection (pool.go, lines 100-180)\<close>

text \<open>
  \<open>store\<close> is the assignment \<open>p.connections[name] = conn\<close>. The entry is a pointer:
  the later writes through \<open>pooledConn\<close> are writes to the stored entry, so each
  branch stores the entry again with the fields it has set.
\<close>

definition store :: "string \<Rightarrow> PooledConnection \<Rightarrow> ConnectionPool \<Rightarrow> ConnectionPool" where
  "store name conn p = p\<lparr>connections := AList.update name conn (connections p)\<rparr>"

definition createConnection ::
  "GetEnv \<Rightarrow> ConnectionPool \<Rightarrow> string \<Rightarrow> (error + handle) \<times> ConnectionPool \<times> event list" where
  "createConnection env p connectionName =
     (case Config_GetConnection (manager_config p) connectionName of
        None \<Rightarrow> (Inl (NotFoundInConfiguration connectionName), p, [])
      | Some connConfig \<Rightarrow>
          (let pooledConn = \<lparr>Name = connectionName, DB = None, Config = connConfig,
                             State = StateConnecting, LastUsed = now_lastUsed env,
                             LastPing = zeroTime, ErrorCount = 0,
                             CreatedAt = now_createdAt env\<rparr>;
               p1 = store connectionName pooledConn p
           in case createRawConnection env connConfig connectionName of
                Inl err \<Rightarrow>
                  (Inl err,
                   store connectionName
                     (pooledConn\<lparr>State := StateError,
                                 ErrorCount := ErrorCount pooledConn + 1\<rparr>) p1,
                   [])
              | Inr db \<Rightarrow>
                  (let evs = [EvSetMaxOpenConns db 10, EvSetMaxIdleConns db 5,
                              EvSetConnMaxLifetime db Hour,
                              EvSetConnMaxIdleTime db (maxIdleTime p)]
                   in case db_Ping env db of
                        Some err \<Rightarrow>
                          (Inl (FailedToPing err),
                           store connectionName
                             (pooledConn\<lparr>State := StateError,
                                         ErrorCount := ErrorCount pooledConn + 1\<rparr>) p1,
                           evs @ [EvClose db])
                      | None \<Rightarrow>
                          (Inr db,
                           (store connectionName
                              (pooledConn\<lparr>DB := Some db, State := StateConnected,
                                          LastPing := now_lastPing env,
                                          ErrorCount := 0\<rparr>) p1)
                             \<lparr>totalConnections := totalConnections p1 + 1\<rparr>,
                           evs))))"

definition GetConnection ::
  "GetEnv \<Rightarrow> ConnectionPool \<Rightarrow> string \<Rightarrow> (error + handle) \<times> ConnectionPool \<times> event list" where
  "GetConnection env p connectionName =
     (case map_of (connections p) connectionName of
        Some conn \<Rightarrow>
          (let conn1 = conn\<lparr>LastUsed := now_touch env\<rparr>;
               p1 = store connectionName conn1 p
           in if State conn1 = StateConnected then
                (case DB conn1 of
                   Some db \<Rightarrow> (Inr db, p1, [])
                 | None \<Rightarrow> createConnection env p1 connectionName)
              else createConnection env p1 connectionName)
      | None \<Rightarrow> createConnection env p connectionName)"

subsection \<open>The health check (pool.go, lines 200-286)\<close>

text \<open>
  What one monitor tick asks of the outside world: the outcome of \<open>PingContext\<close> on
  each handle, the clock reading after a successful ping of the named entry (line 247)
  and the clock reading of the reap pass (line 262).
\<close>

record TickEnv =
  db_PingContext :: "handle \<Rightarrow> error option"
  now_ping :: "string \<Rightarrow> time"
  now_cleanup :: time

definition checkConnection ::
  "TickEnv \<Rightarrow> ConnectionPool \<Rightarrow> PooledConnection
     \<Rightarrow> ConnectionPool \<times> PooledConnection \<times> event list" where
  "checkConnection env p conn =
     (case DB conn of
        None \<Rightarrow> (p, conn, [])
      | Some db \<Rightarrow>
          if State conn = StateError then (p, conn, [])
          else
            (case db_PingContext env db of
               Some err \<Rightarrow>
                 (let conn1 = conn\<lparr>State := StateError, ErrorCount := ErrorCount conn + 1\<rparr>;
                      p1 = p\<lparr>failedPings := failedPings p + 1\<rparr>
                  in if maxErrorCount p1 \<le>s ErrorCount conn1 then
                       (p1, conn1\<lparr>DB := None, State := StateDisconnected\<rparr>, [EvClose db])
                     else (p1, conn1, []))
             | None \<Rightarrow>
                 (let conn1 = conn\<lparr>LastPing := now_ping env (Name conn)\<rparr>;
                      conn2 = (if State conn1 = StateError
                               then conn1\<lparr>State := StateConnected\<rparr> else conn1)
                  in (p\<lparr>successfulPings := successfulPings p + 1\<rparr>,
                      conn2\<lparr>ErrorCount := 0\<rparr>, []))))"

text \<open>
  The loop of \<open>healthCheck\<close> over its snapshot. The snapshot holds pointers to the
  entries of the registry, so checking an entry updates it in place.
\<close>

fun checkAll ::
  "TickEnv \<Rightarrow> ConnectionPool \<Rightarrow> (string \<times> PooledConnection) list
     \<Rightarrow> ConnectionPool \<times> (string \<times> PooledConnection) list \<times> event list" where
  "checkAll env p [] = (p, [], [])"
| "checkAll env p ((name, conn) # rest) =
     (case checkConnection env p conn of
        (p1, conn1, evs1) \<Rightarrow>
          (case checkAll env p1 rest of
             (p2, rest2, evs2) \<Rightarrow> (p2, (name, conn1) # rest2, evs1 @ evs2)))"

definition shouldRemove :: "time \<Rightarrow> ConnectionPool \<Rightarrow> PooledConnection \<Rightarrow> bool" where
  "shouldRemove now p conn =
     (let idleTime = time_Sub now (LastUsed conn)
      in maxIdleTime p < idleTime \<and> State conn \<noteq> StateConnected)"

definition toRemove :: "time \<Rightarrow> ConnectionPool \<Rightarrow> string list" where
  "toRemove now p =
     map fst (filter (\<lambda>(name, conn). shouldRemove now p conn) (connections p))"

text \<open>
  The second loop of \<open>cleanupIdleConnections\<close>. Looking up a name that is not in the
  registry gives a nil entry, and locking it panics: the result \<open>None\<close>.
\<close>

fun removeEntries :: "string list \<Rightarrow> ConnectionPool \<Rightarrow> (ConnectionPool \<times> event list) option" where
  "removeEntries [] p = Some (p, [])"
| "removeEntries (name # names) p =
     (case map_of (connections p) name of
        None \<Rightarrow> None
      | Some conn \<Rightarrow>
          (let evs1 = (case DB conn of Some db \<Rightarrow> [EvClose db] | None \<Rightarrow> []);
               p1 = p\<lparr>connections := AList.delete name (connections p)\<rparr>
           in case removeEntries names p1 of
                None \<Rightarrow> None
              | Some (p2, evs2) \<Rightarrow> Some (p2, evs1 @ [EvDelete name] @ evs2)))"

definition cleanupIdleConnections ::
  "time \<Rightarrow> ConnectionPool \<Rightarrow> (ConnectionPool \<times> event list) option" where
  "cleanupIdleConnections now p = removeEntries (toRemove now p) p"

definition healthCheck :: "TickEnv \<Rightarrow> ConnectionPool \<Rightarrow> (ConnectionPool \<times> event list) option" where
  "healthCheck env p =
     (case checkAll env p (connections p) of
        (p1, conns, evs1) \<Rightarrow>
          (case cleanupIdleConnections (now_cleanup env) (p1\<lparr>connections := conns\<rparr>) of
             None \<Rightarrow> None
           | Some (p2, evs2) \<Rightarrow> Some (p2, evs1 @ evs2)))"

subsection \<open>Status and metrics (pool.go, lines 288-368)\<close>

record ConnectionStatus =
  status_Name :: string
  status_State :: ConnectionState
  status_LastUsed :: time
  status_LastPing :: time
  status_ErrorCount :: "64 word"
  status_CreatedAt :: time
  status_IdleTime :: duration
  status_ConnectedFor :: duration

record PoolMetrics =
  metrics_TotalConnections :: "64 word"
  metrics_ActiveConnections :: "64 word"
  metrics_ConnectedCount :: "64 word"
  metrics_ErrorCount :: "64 word"
  metrics_SuccessfulPings :: "64 word"
  metrics_FailedPings :: "64 word"
  metrics_PingInterval :: duration
  metrics_MaxIdleTime :: duration

text \<open>The two clock readings of \<open>time.Since\<close> in \<open>GetConnectionStatus\<close>.\<close>

record StatusEnv =
  now_idle :: time
  now_connectedFor :: time

text \<open>
  Both methods only read the pool; they return it next to their result so that the
  absence of a write can be stated.
\<close>

definition GetConnectionStatus ::
  "StatusEnv \<Rightarrow> ConnectionPool \<Rightarrow> string \<Rightarrow> ConnectionStatus \<times> ConnectionPool" where
  "GetConnectionStatus env p connectionName =
     (case map_of (connections p) connectionName of
        None \<Rightarrow>
          (\<lparr>status_Name = connectionName, status_State = StateDisconnected,
            status_LastUsed = zeroTime, status_LastPing = zeroTime,
            status_ErrorCount = 0, status_CreatedAt = zeroTime,
            status_IdleTime = 0, status_ConnectedFor = 0\<rparr>, p)
      | Some conn \<Rightarrow>
          (\<lparr>status_Name = Name conn, status_State = State conn,
            status_LastUsed = LastUsed conn, status_LastPing = LastPing conn,
            status_ErrorCount = ErrorCount conn, status_CreatedAt = CreatedAt conn,
            status_IdleTime = time_Sub (now_idle env) (LastUsed conn),
            status_ConnectedFor = time_Sub (now_connectedFor env) (CreatedAt conn)\<rparr>, p))"

fun countStates ::
  "(string \<times> PooledConnection) list \<Rightarrow> 64 word \<times> 64 word \<Rightarrow> 64 word \<times> 64 word" where
  "countStates [] acc = acc"
| "countStates ((name, conn) # rest) (connected, errors) =
     countStates rest
       (if State conn = StateConnected then (connected + 1, errors)
        else if State conn = StateError then (connected, errors + 1)
        else (connected, errors))"

definition GetPoolMetrics :: "ConnectionPool \<Rightarrow> PoolMetrics \<times> ConnectionPool" where
  "GetPoolMetrics p =
     (case countStates (connections p) (0, 0) of
        (connected, errors) \<Rightarrow>
          (\<lparr>metrics_TotalConnections = totalConnections p,
            metrics_ActiveConnections = of_nat (length (connections p)),
            metrics_ConnectedCount = connected,
            metrics_ErrorCount = errors,
            metrics_SuccessfulPings = successfulPings p,
            metrics_FailedPings = failedPings p,
            metrics_PingInterval = pingInterval p,
            metrics_MaxIdleTime = maxIdleTime p\<rparr>, p))"

subsection \<open>Vocabulary of the statements\<close>

text \<open>
  The definitions of this subsection are not functions of the program; they name the
  conditions and values that the theorems speak about.
\<close>

text \<open>The number of entries in a given state.\<close>

definition inState :: "ConnectionState \<Rightarrow> (string \<times> PooledConnection) list \<Rightarrow> nat" where
  "inState s conns = length (filter (\<lambda>(name, conn). State conn = s) conns)"

text \<open>The four limits that \<open>createConnection\<close> sets on a fresh handle (lines 153-156).\<close>

definition limitEvents :: "handle \<Rightarrow> duration \<Rightarrow> event list" where
  "limitEvents db d = [EvSetMaxOpenConns db 10, EvSetMaxIdleConns db 5,
                       EvSetConnMaxLifetime db Hour, EvSetConnMaxIdleTime db d]"

text \<open>
  The test of \<open>GetConnection\<close> at line 111: the entry exists, is \<open>Connected\<close> and holds
  a handle. \<open>touched\<close> is the pool after line 108, where the entry, if there is one, has
  its \<open>LastUsed\<close> set.
\<close>

definition fastPath :: "ConnectionPool \<Rightarrow> string \<Rightarrow> bool" where
  "fastPath p name =
     (case map_of (connections p) name of
        None \<Rightarrow> False
      | Some conn \<Rightarrow> State conn = StateConnected \<and> DB conn \<noteq> None)"

definition touched :: "GetEnv \<Rightarrow> ConnectionPool \<Rightarrow> string \<Rightarrow> ConnectionPool" where
  "touched env p name =
     (case map_of (connections p) name of
        None \<Rightarrow> p
      | Some conn \<Rightarrow> store name (conn\<lparr>LastUsed := now_touch env\<rparr>) p)"

text \<open>What removing one entry does to the outside world (lines 277-283).\<close>

definition removalEvents :: "string \<times> PooledConnection \<Rightarrow> event list" where
  "removalEvents e =
     (case DB (snd e) of Some db \<Rightarrow> [EvClose db] | None \<Rightarrow> []) @ [EvDelete (fst e)]"

text \<open>The entry after \<open>checkConnection\<close>, and the effects of checking it.\<close>

definition checked :: "TickEnv \<Rightarrow> ConnectionPool \<Rightarrow> PooledConnection \<Rightarrow> PooledConnection" where
  "checked env p conn = fst (snd (checkConnection env p conn))"

definition checkEvents :: "TickEnv \<Rightarrow> ConnectionPool \<Rightarrow> PooledConnection \<Rightarrow> event list" where
  "checkEvents env p conn = snd (snd (checkConnection env p conn))"

subsection \<open>Example configuration, pools and environments\<close>

text \<open>
  The connection \<open>test-mysql\<close> of the repository's test configuration, a pool over it
  with a chosen error threshold, entries as the repository's tests build them, and
  collaborators that succeed or fail. \<open>ex_reap_pool\<close> follows
  \<open>TestCleanupIdleConnections\<close> and \<open>ex_metrics_pool\<close> follows \<open>TestGetPoolMetrics\<close>.
\<close>

definition ex_conn :: Connection where
  "ex_conn = \<lparr>Type = ''mysql'', Host = ''localhost'', Port = 3306, Database = ''testdb'',
              SSLMode = [], Username = ''testuser''\<rparr>"

definition ex_config :: "64 word \<Rightarrow> Config" where
  "ex_config m =
     \<lparr>Connections = [''test-mysql'' \<mapsto> ex_conn],
      Settings_ConnectionPool =
        \<lparr>PingInterval = 10000000000, MaxIdleTime = 60000000000, MaxErrorCount = m,
         ReconnectDelay = 1000000000, EnableKeepalive = True\<rparr>\<rparr>"

definition ex_pool ::
  "64 word \<Rightarrow> (string \<times> PooledConnection) list \<Rightarrow> 64 word \<Rightarrow> 64 word \<Rightarrow> 64 word
     \<Rightarrow> ConnectionPool" where
  "ex_pool m conns created good bad =
     \<lparr>connections = conns, manager_config = ex_config m,
      pingInterval = 10000000000, maxIdleTime = 60000000000, maxErrorCount = m,
      reconnectDelay = 1000000000, totalConnections = created,
      successfulPings = good, failedPings = bad\<rparr>"

definition ex_entry ::
  "string \<Rightarrow> handle option \<Rightarrow> ConnectionState \<Rightarrow> time \<Rightarrow> time \<Rightarrow> 64 word
     \<Rightarrow> PooledConnection" where
  "ex_entry name db st t lastPing n =
     \<lparr>Name = name, DB = db, Config = ex_conn, State = st, LastUsed = t,
      LastPing = lastPing, ErrorCount = n, CreatedAt = t\<rparr>"

definition ex_get_ok :: "time \<Rightarrow> handle \<Rightarrow> GetEnv" where
  "ex_get_ok t h =
     \<lparr>now_touch = t, now_createdAt = t, now_lastUsed = t, now_lastPing = t,
      credManager_Get = (\<lambda>n u. Inr \<lparr>cred_Username = u, cred_Password = ''testpass''\<rparr>),
      sql_Open = (\<lambda>d s. Inr h), db_Ping = (\<lambda>db. None)\<rparr>"

definition ex_get_nocred :: "time \<Rightarrow> GetEnv" where
  "ex_get_nocred t =
     \<lparr>now_touch = t, now_createdAt = t, now_lastUsed = t, now_lastPing = t,
      credManager_Get = (\<lambda>n u. Inl (Collaborator ''credential not found'')),
      sql_Open = (\<lambda>d s. Inr 7), db_Ping = (\<lambda>db. None)\<rparr>"

definition ex_get_noopen :: "time \<Rightarrow> GetEnv" where
  "ex_get_noopen t =
     \<lparr>now_touch = t, now_createdAt = t, now_lastUsed = t, now_lastPing = t,
      credManager_Get = (\<lambda>n u. Inr \<lparr>cred_Username = u, cred_Password = ''testpass''\<rparr>),
      sql_Open = (\<lambda>d s. Inl (Collaborator ''unknown driver'')), db_Ping = (\<lambda>db. None)\<rparr>"

definition ex_get_noping :: "time \<Rightarrow> handle \<Rightarrow> GetEnv" where
  "ex_get_noping t h =
     \<lparr>now_touch = t, now_createdAt = t, now_lastUsed = t, now_lastPing = t,
      credManager_Get = (\<lambda>n u. Inr \<lparr>cred_Username = u, cred_Password = ''testpass''\<rparr>),
      sql_Open = (\<lambda>d s. Inr h),
      db_Ping = (\<lambda>db. Some (Collaborator ''connection refused''))\<rparr>"

definition ex_tick_fail :: "time \<Rightarrow> TickEnv" where
  "ex_tick_fail t =
     \<lparr>db_PingContext = (\<lambda>db. Some (Collaborator ''connection refused'')),
      now_ping = (\<lambda>n. t), now_cleanup = t\<rparr>"

definition ex_tick_ok :: "time \<Rightarrow> TickEnv" where
  "ex_tick_ok t = \<lparr>db_PingContext = (\<lambda>db. None), now_ping = (\<lambda>n. t), now_cleanup = t\<rparr>"

definition ex_reap_pool :: ConnectionPool where
  "ex_reap_pool =
     ex_pool 2
       [(''old-error'', ex_entry ''old-error'' (Some 3) StateError 0 0 1),
        (''old-connected'', ex_entry ''old-connected'' (Some 4) StateConnected 0 0 0),
        (''recent-disconnected'',
           ex_entry ''recent-disconnected'' None StateDisconnected 90000000000 0 2),
        (''old-disconnected'', ex_entry ''old-disconnected'' None StateDisconnected 0 0 2)]
       2 0 2"

definition ex_metrics_pool :: ConnectionPool where
  "ex_metrics_pool =
     ex_pool 2
       [(''conn1'', ex_entry ''conn1'' None StateConnected 0 0 0),
        (''conn2'', ex_entry ''conn2'' None StateError 0 0 0),
        (''conn3'', ex_entry ''conn3'' None StateConnected 0 0 0)]
       5 100 10"

section \<open>Auxiliary lemmas\<close>

declare show_nat.simps [simp del]

subsection \<open>The registry\<close>

lemma map_of_store:
  "map_of (connections (store name conn p)) = (map_of (connections p))(name \<mapsto> conn)"
  by (simp add: store_def update_conv')

lemma keys_store:
  "set (map fst (connections (store name conn p))) = insert name (set (map fst (connections p)))"
  using dom_update [of name conn "connections p"] by (simp add: store_def)

lemma store_fields:
  "manager_config (store name conn p) = manager_config p"
  "maxIdleTime (store name conn p) = maxIdleTime p"
  "maxErrorCount (store name conn p) = maxErrorCount p"
  "totalConnections (store name conn p) = totalConnections p"
  "successfulPings (store name conn p) = successfulPings p"
  "failedPings (store name conn p) = failedPings p"
  by (simp_all add: store_def)

lemma store_store:
  "store name c2 (store name c1 p) = store name c2 p"
  by (simp add: store_def update_last)

lemma wf_store: "wf_registry p \<Longrightarrow> wf_registry (store name conn p)"
  by (simp add: wf_registry_def store_def distinct_update)

lemma registry_configured_iff:
  "registry_configured p \<longleftrightarrow>
     (\<forall>name \<in> set (map fst (connections p)). Config_GetConnection (manager_config p) name \<noteq> None)"
  by (simp add: registry_configured_def list_all_iff)

lemma unconfigured_absent:
  assumes "registry_configured p" and "Config_GetConnection (manager_config p) name = None"
  shows "map_of (connections p) name = None"
proof (rule ccontr)
  assume "map_of (connections p) name \<noteq> None"
  then obtain c where "map_of (connections p) name = Some c" by auto
  then have "(name, c) \<in> set (connections p)" by (rule map_of_SomeD)
  then have "name \<in> set (map fst (connections p))" by force
  with assms show False by (auto simp: registry_configured_iff)
qed

lemma countStates_acc:
  "countStates conns (a, b) =
     (a + of_nat (inState StateConnected conns), b + of_nat (inState StateError conns))"
proof (induction conns arbitrary: a b)
  case Nil
  show ?case by (simp add: inState_def)
next
  case (Cons x conns)
  obtain name conn where x: "x = (name, conn)" by (cases x)
  show ?case unfolding x
    by (simp add: Cons.IH inState_def)
qed

lemma inState_sum:
  "inState StateConnected conns + inState StateError conns \<le> length conns"
proof (induction conns)
  case Nil
  show ?case by (simp add: inState_def)
next
  case (Cons x conns)
  then show ?case by (cases x) (auto simp: inState_def)
qed

lemma sint_of_nat_64:
  assumes "n < 2 ^ 63"
  shows "sint (of_nat n :: 64 word) = int n"
proof -
  have "int n < 2 ^ 63" using assms by (simp flip: of_nat_less_iff)
  then have "signed_take_bit 63 (int n) = int n"
    by (intro signed_take_bit_int_eq_self) simp_all
  then show ?thesis by (simp add: signed_of_nat)
qed

lemma createConnection_unconfigured:
  "Config_GetConnection (manager_config p) name = None \<Longrightarrow>
   createConnection env p name = (Inl (NotFoundInConfiguration name), p, [])"
  by (simp add: createConnection_def)

lemma createConnection_raw_failed:
  assumes "Config_GetConnection (manager_config p) name = Some cc"
    and "createRawConnection env cc name = Inl err"
  shows "createConnection env p name =
     (Inl err,
      store name \<lparr>Name = name, DB = None, Config = cc, State = StateError,
                  LastUsed = now_lastUsed env, LastPing = zeroTime, ErrorCount = 1,
                  CreatedAt = now_createdAt env\<rparr> p,
      [])"
  using assms by (simp add: createConnection_def store_store)

lemma createConnection_ping_failed:
  assumes "Config_GetConnection (manager_config p) name = Some cc"
    and "createRawConnection env cc name = Inr db"
    and "db_Ping env db = Some err"
  shows "createConnection env p name =
     (Inl (FailedToPing err),
      store name \<lparr>Name = name, DB = None, Config = cc, State = StateError,
                  LastUsed = now_lastUsed env, LastPing = zeroTime, ErrorCount = 1,
                  CreatedAt = now_createdAt env\<rparr> p,
      limitEvents db (maxIdleTime p) @ [EvClose db])"
  using assms by (simp add: createConnection_def store_store limitEvents_def)

lemma createConnection_succeeded:
  assumes "Config_GetConnection (manager_config p) name = Some cc"
    and "createRawConnection env cc name = Inr db"
    and "db_Ping env db = None"
  shows "createConnection env p name =
     (Inr db,
      (store name \<lparr>Name = name, DB = Some db, Config = cc, State = StateConnected,
                   LastUsed = now_lastUsed env, LastPing = now_lastPing env,
                   ErrorCount = 0, CreatedAt = now_createdAt env\<rparr> p)
        \<lparr>totalConnections := totalConnections p + 1\<rparr>,
      limitEvents db (maxIdleTime p))"
  using assms by (simp add: createConnection_def store_store store_fields limitEvents_def)

lemma GetConnection_fast:
  assumes "map_of (connections p) name = Some conn" "State conn = StateConnected" "DB conn = Some db"
  shows "GetConnection env p name = (Inr db, store name (conn\<lparr>LastUsed := now_touch env\<rparr>) p, [])"
  using assms by (simp add: GetConnection_def)

lemma GetConnection_slow:
  assumes "\<not> fastPath p name"
  shows "GetConnection env p name = createConnection env (touched env p name) name"
  using assms
  by (auto simp: GetConnection_def fastPath_def touched_def Let_def split: option.splits)

lemma touched_fields:
  "manager_config (touched env p name) = manager_config p"
  "maxIdleTime (touched env p name) = maxIdleTime p"
  "totalConnections (touched env p name) = totalConnections p"
  by (simp_all add: touched_def store_fields split: option.splits)

lemma store_touched:
  "store name c (touched env p name) = store name c p"
  by (simp add: touched_def store_store split: option.splits)

lemma keys_touched:
  "set (map fst (connections (touched env p name))) = set (map fst (connections p))"
proof (cases "map_of (connections p) name")
  case None
  then show ?thesis by (simp add: touched_def)
next
  case (Some conn)
  then have "(name, conn) \<in> set (connections p)" by (rule map_of_SomeD)
  then have "name \<in> set (map fst (connections p))" by force
  then show ?thesis using Some keys_store [of name _ p]  by (auto simp: touched_def)
qed

lemma createRawConnection_credentials_failed:
  assumes "Username cc \<noteq> []" and "credManager_Get env name (Username cc) = Inl e"
  shows "createRawConnection env cc name = Inl (FailedToGetCredentials name e)"
  using assms by (simp add: createRawConnection_def)

text \<open>Every failure of the creation path for a configured name leaves the same entry.\<close>

lemma createConnection_failed_entry:
  assumes cfg: "Config_GetConnection (manager_config p) name = Some cc"
    and fail: "createConnection env p name = (Inl err, p', evs)"
  shows "p' = store name \<lparr>Name = name, DB = None, Config = cc, State = StateError,
                  LastUsed = now_lastUsed env, LastPing = zeroTime, ErrorCount = 1,
                  CreatedAt = now_createdAt env\<rparr> p"
proof (cases "createRawConnection env cc name")
  case (Inl e)
  from createConnection_raw_failed [OF cfg Inl] fail show ?thesis by simp
next
  case (Inr db)
  show ?thesis
  proof (cases "db_Ping env db")
    case None
    from createConnection_succeeded [OF cfg Inr None] fail show ?thesis by simp
  next
    case (Some e)
    from createConnection_ping_failed [OF cfg Inr Some] fail show ?thesis by simp
  qed
qed

text \<open>Invariants of the registry under \<open>GetConnection\<close>.\<close>

lemma createConnection_configured_keys:
  assumes "registry_configured p"
  shows "registry_configured (fst (snd (createConnection env p name)))"
proof (cases "Config_GetConnection (manager_config p) name")
  case None
  with assms show ?thesis by (simp add: createConnection_unconfigured)
next
  case (Some cc)
  have st: "registry_configured (store name c p)" for c
    using assms Some by (simp add: registry_configured_iff keys_store [simplified] store_fields)
  have st': "registry_configured ((store name c p)\<lparr>totalConnections := n\<rparr>)" for c n
    using st [of c] by (simp add: registry_configured_def)
  show ?thesis
  proof (cases "createRawConnection env cc name")
    case (Inl e)
    from createConnection_raw_failed [OF Some Inl] st show ?thesis by simp
  next
    case (Inr db)
    show ?thesis
    proof (cases "db_Ping env db")
      case None
      from createConnection_succeeded [OF Some Inr None] st' show ?thesis by simp
    next
      case (Some e)
      from createConnection_ping_failed [OF \<open>Config_GetConnection (manager_config p) name = Some cc\<close> Inr Some] st
      show ?thesis by simp
    qed
  qed
qed

lemma touched_configured:
  "registry_configured p \<Longrightarrow> registry_configured (touched env p name)"
  using keys_touched [of env p name]
  by (simp add: registry_configured_iff touched_fields)

lemma GetConnection_configured:
  assumes "registry_configured p"
  shows "registry_configured (fst (snd (GetConnection env p name)))"
proof (cases "fastPath p name")
  case False
  then show ?thesis
    using createConnection_configured_keys [OF touched_configured [OF assms]]
    by (simp add: GetConnection_slow)
next
  case True
  then obtain conn db where c: "map_of (connections p) name = Some conn"
      "State conn = StateConnected" "DB conn = Some db"
    by (auto simp: fastPath_def split: option.splits)
  have "touched env p name = store name (conn\<lparr>LastUsed := now_touch env\<rparr>) p"
    using c by (simp add: touched_def)
  with touched_configured [OF assms, of env name] GetConnection_fast [OF c]
  show ?thesis by simp
qed

lemma GetConnections_configured:
  "registry_configured p \<Longrightarrow>
   registry_configured (foldl (\<lambda>q env. fst (snd (GetConnection env q name))) p envs)"
  by (induction envs arbitrary: p) (simp_all add: GetConnection_configured)

lemma GetConnection_failed_count:
  assumes inv: "registry_configured p"
    and res: "GetConnection env p name = (Inl err, p', evs)"
    and ent: "map_of (connections p') name = Some c"
  shows "ErrorCount c = 1"
proof -
  have slow: "\<not> fastPath p name"
  proof
    assume "fastPath p name"
    then obtain conn db where c: "map_of (connections p) name = Some conn"
      "State conn = StateConnected" "DB conn = Some db"
      by (auto simp: fastPath_def split: option.splits)
    from GetConnection_fast [OF c] res show False by simp
  qed
  let ?q = "touched env p name"
  have gc: "createConnection env ?q name = (Inl err, p', evs)"
    using GetConnection_slow [OF slow, of env] res by simp
  show ?thesis
  proof (cases "Config_GetConnection (manager_config p) name")
    case None
    have abs: "map_of (connections p) name = None"
      using inv None by (rule unconfigured_absent)
    then have "?q = p" by (simp add: touched_def)
    with gc None have "p' = p" by (simp add: createConnection_unconfigured)
    with ent abs show ?thesis by simp
  next
    case (Some cc)
    then have "Config_GetConnection (manager_config ?q) name = Some cc"
      by (simp add: touched_fields)
    from createConnection_failed_entry [OF this gc] ent
    show ?thesis by (auto simp: map_of_store)
  qed
qed

subsection \<open>The reap pass\<close>

lemma removeEntries_result:
  assumes "distinct (map fst ys)"
    and "\<forall>e \<in> set ys. map_of (connections p) (fst e) = Some (snd e)"
  shows "removeEntries (map fst ys) p =
     Some (p\<lparr>connections := filter (\<lambda>e. fst e \<notin> fst ` set ys) (connections p)\<rparr>,
           concat (map removalEvents ys))"
  using assms
proof (induction ys arbitrary: p)
  case Nil
  show ?case by simp
next
  case (Cons y ys)
  let ?p1 = "p\<lparr>connections := AList.delete (fst y) (connections p)\<rparr>"
  have look: "map_of (connections p) (fst y) = Some (snd y)"
    using Cons.prems(2) by simp
  have d: "distinct (map fst ys)" and notin: "fst y \<notin> fst ` set ys"
    using Cons.prems(1) by simp_all
  have rest: "\<forall>e \<in> set ys. map_of (connections ?p1) (fst e) = Some (snd e)"
  proof
    fix e assume e: "e \<in> set ys"
    with notin have "fst e \<noteq> fst y" by (metis imageI)
    with Cons.prems(2) e show "map_of (connections ?p1) (fst e) = Some (snd e)"
      by (simp add: delete_conv')
  qed
  have ih: "removeEntries (map fst ys) ?p1 =
     Some (?p1\<lparr>connections := filter (\<lambda>e. fst e \<notin> fst ` set ys) (connections ?p1)\<rparr>,
           concat (map removalEvents ys))"
    by (rule Cons.IH [OF d rest])
  have flt: "filter (\<lambda>e. fst e \<notin> fst ` set ys) (AList.delete (fst y) (connections p))
           = filter (\<lambda>e. fst e \<notin> fst ` set (y # ys)) (connections p)"
    by (auto simp: AList.delete_eq intro: filter_cong)
  have ev: "removalEvents y
      = (case DB (snd y) of Some db \<Rightarrow> [EvClose db] | None \<Rightarrow> []) @ [EvDelete (fst y)]"
    by (simp add: removalEvents_def)
  show ?case
    using look ih flt ev by simp
qed

lemma cleanup_result:
  assumes wf: "wf_registry p"
  shows "cleanupIdleConnections now p =
     Some (p\<lparr>connections := filter (\<lambda>e. \<not> shouldRemove now p (snd e)) (connections p)\<rparr>,
           concat (map removalEvents
                     (filter (\<lambda>e. shouldRemove now p (snd e)) (connections p))))"
proof -
  let ?xs = "connections p"
  let ?ys = "filter (\<lambda>e. shouldRemove now p (snd e)) ?xs"
  have dx: "distinct (map fst ?xs)" using wf by (simp add: wf_registry_def)
  have names: "toRemove now p = map fst ?ys"
    by (simp add: toRemove_def case_prod_unfold)
  have dy: "distinct (map fst ?ys)" using dx by (rule distinct_map_filter)
  have look: "\<forall>e \<in> set ?ys. map_of ?xs (fst e) = Some (snd e)"
    using dx by (auto intro: map_of_is_SomeI)
  have same: "filter (\<lambda>e. fst e \<notin> fst ` set ?ys) ?xs
            = filter (\<lambda>e. \<not> shouldRemove now p (snd e)) ?xs"
  proof (rule filter_cong [OF refl])
    fix e assume e: "e \<in> set ?xs"
    show "(fst e \<notin> fst ` set ?ys) = (\<not> shouldRemove now p (snd e))"
    proof
      assume "fst e \<notin> fst ` set ?ys"
      with e show "\<not> shouldRemove now p (snd e)" by force
    next
      assume n: "\<not> shouldRemove now p (snd e)"
      show "fst e \<notin> fst ` set ?ys"
      proof
        assume "fst e \<in> fst ` set ?ys"
        then obtain e' where e': "e' \<in> set ?xs" "shouldRemove now p (snd e')" "fst e' = fst e"
          by auto
        from dx e e' have "e' = e"
          by (metis eq_key_imp_eq_value prod.collapse)
        with n e' show False by simp
      qed
    qed
  qed
  show ?thesis
    unfolding cleanupIdleConnections_def names
    using removeEntries_result [OF dy look] same by simp
qed

lemma removalEvents_in_order:
  assumes "e \<in> set ys" and "DB (snd e) = Some db"
  shows "\<exists>pre post. concat (map removalEvents ys) = pre @ [EvClose db, EvDelete (fst e)] @ post"
proof -
  from assms(1) obtain us vs where "ys = us @ e # vs"
    by (auto dest: split_list)
  then have "concat (map removalEvents ys)
      = concat (map removalEvents us) @ [EvClose db, EvDelete (fst e)]
        @ concat (map removalEvents vs)"
    using assms(2) by (simp add: removalEvents_def)
  then show ?thesis by blast
qed

subsection \<open>The health-check pass\<close>

lemma checkConnection_frame:
  "maxErrorCount (fst (checkConnection env p conn)) = maxErrorCount p"
  "maxIdleTime (fst (checkConnection env p conn)) = maxIdleTime p"
  "manager_config (fst (checkConnection env p conn)) = manager_config p"
  "totalConnections (fst (checkConnection env p conn)) = totalConnections p"
  by (simp_all add: checkConnection_def Let_def split: option.splits)

lemma checkConnection_threshold_only:
  assumes "maxErrorCount p = maxErrorCount q"
  shows "checked env p conn = checked env q conn"
    and "checkEvents env p conn = checkEvents env q conn"
  using assms
  by (simp_all add: checked_def checkEvents_def checkConnection_def Let_def split: option.splits)

lemma checkConnection_static:
  "CreatedAt (checked env p conn) = CreatedAt conn"
  "LastUsed (checked env p conn) = LastUsed conn"
  "Name (checked env p conn) = Name conn"
  by (simp_all add: checked_def checkConnection_def Let_def split: option.splits)

lemma checkAll_result:
  "fst (snd (checkAll env p conns)) = map (\<lambda>e. (fst e, checked env p (snd e))) conns
   \<and> snd (snd (checkAll env p conns)) = concat (map (\<lambda>e. checkEvents env p (snd e)) conns)
   \<and> maxErrorCount (fst (checkAll env p conns)) = maxErrorCount p
   \<and> maxIdleTime (fst (checkAll env p conns)) = maxIdleTime p
   \<and> manager_config (fst (checkAll env p conns)) = manager_config p"
proof (induction conns arbitrary: p)
  case Nil
  show ?case by simp
next
  case (Cons x conns)
  obtain name conn where x: "x = (name, conn)" by (cases x)
  obtain p1 conn1 evs1 where c: "checkConnection env p conn = (p1, conn1, evs1)"
    by (cases "checkConnection env p conn")
  obtain p2 rest2 evs2 where r: "checkAll env p1 conns = (p2, rest2, evs2)"
    by (cases "checkAll env p1 conns")
  have p1: "maxErrorCount p1 = maxErrorCount p" "maxIdleTime p1 = maxIdleTime p"
      "manager_config p1 = manager_config p"
    using checkConnection_frame [of env p conn] c by simp_all
  have same: "checked env p1 = checked env p" "checkEvents env p1 = checkEvents env p"
    using checkConnection_threshold_only [OF p1(1)] by (auto intro: ext)
  from Cons.IH [of p1] r
  have ih: "rest2 = map (\<lambda>e. (fst e, checked env p (snd e))) conns"
      "evs2 = concat (map (\<lambda>e. checkEvents env p (snd e)) conns)"
      "maxErrorCount p2 = maxErrorCount p" "maxIdleTime p2 = maxIdleTime p"
      "manager_config p2 = manager_config p"
    by (simp_all add: same p1)
  show ?case
    unfolding x using c r ih by (simp add: checked_def checkEvents_def)
qed

lemma healthCheck_result:
  assumes wf: "wf_registry p"
  shows "\<exists>p' evs2. healthCheck env p =
           Some (p', concat (map (\<lambda>e. checkEvents env p (snd e)) (connections p)) @ evs2)
     \<and> connections p' =
         filter (\<lambda>e. \<not> shouldRemove (now_cleanup env) p (snd e))
           (map (\<lambda>e. (fst e, checked env p (snd e))) (connections p))
     \<and> manager_config p' = manager_config p
     \<and> maxErrorCount p' = maxErrorCount p"
proof -
  obtain p1 conns evs1 where c: "checkAll env p (connections p) = (p1, conns, evs1)"
    by (cases "checkAll env p (connections p)")
  from checkAll_result [of env p "connections p"] c
  have r: "conns = map (\<lambda>e. (fst e, checked env p (snd e))) (connections p)"
      "evs1 = concat (map (\<lambda>e. checkEvents env p (snd e)) (connections p))"
      "maxErrorCount p1 = maxErrorCount p" "maxIdleTime p1 = maxIdleTime p"
      "manager_config p1 = manager_config p"
    by simp_all
  let ?q = "p1\<lparr>connections := conns\<rparr>"
  have "map fst conns = map fst (connections p)" unfolding r(1) by (simp add: comp_def)
  with wf have wfq: "wf_registry ?q" by (simp add: wf_registry_def)
  have sr: "shouldRemove now (p1\<lparr>connections := xs\<rparr>) = shouldRemove now p" for now xs
    by (rule ext) (simp add: shouldRemove_def r(4))
  from cleanup_result [OF wfq, of "now_cleanup env"] c
  show ?thesis
    by (simp add: healthCheck_def sr r)
qed

lemma checkConnection_skips:
  "DB conn = None \<or> State conn = StateError \<Longrightarrow> checkConnection env p conn = (p, conn, [])"
  by (auto simp: checkConnection_def split: option.splits)

lemma checkConnection_closes:
  assumes "DB conn = Some db" "State conn \<noteq> StateError" "db_PingContext env db = Some err"
    "maxErrorCount p \<le>s ErrorCount conn + 1"
  shows "checkConnection env p conn =
     (p\<lparr>failedPings := failedPings p + 1\<rparr>,
      conn\<lparr>DB := None, State := StateDisconnected, ErrorCount := ErrorCount conn + 1\<rparr>,
      [EvClose db])"
  using assms by (simp add: checkConnection_def)

subsection \<open>Entries built by the creation path\<close>

lemma createConnection_entry:
  assumes cfg: "Config_GetConnection (manager_config q) name = Some cc"
    and res: "createConnection env q name = (r, p', evs)"
  shows "map_of (connections p') name =
     Some \<lparr>Name = name,
           DB = (case r of Inl e \<Rightarrow> None | Inr db \<Rightarrow> Some db),
           Config = cc,
           State = (case r of Inl e \<Rightarrow> StateError | Inr db \<Rightarrow> StateConnected),
           LastUsed = now_lastUsed env,
           LastPing = (case r of Inl e \<Rightarrow> zeroTime | Inr db \<Rightarrow> now_lastPing env),
           ErrorCount = (case r of Inl e \<Rightarrow> 1 | Inr db \<Rightarrow> 0),
           CreatedAt = now_createdAt env\<rparr>"
proof (cases "createRawConnection env cc name")
  case (Inl e)
  from createConnection_raw_failed [OF cfg Inl] res show ?thesis
    by (auto simp: map_of_store)
next
  case (Inr db)
  show ?thesis
  proof (cases "db_Ping env db")
    case None
    from createConnection_succeeded [OF cfg Inr None] res show ?thesis
      by (auto simp: map_of_store)
  next
    case (Some e)
    from createConnection_ping_failed [OF cfg Inr Some] res show ?thesis
      by (auto simp: map_of_store)
  qed
qed

lemma present_configured:
  assumes "registry_configured p" and "map_of (connections p) name = Some old"
  shows "\<exists>cc. Config_GetConnection (manager_config p) name = Some cc"
proof -
  from assms(2) have "(name, old) \<in> set (connections p)" by (rule map_of_SomeD)
  then have "name \<in> set (map fst (connections p))" by force
  with assms(1) show ?thesis by (auto simp: registry_configured_iff)
qed

subsection \<open>Evaluating the examples\<close>

lemma ex_new: "NewConnectionPool (ex_config m) = ex_pool m [] 0 0 0"
  by (simp add: NewConnectionPool_def ex_config_def ex_pool_def)

lemma ex_lookup:
  "Config_GetConnection (manager_config (ex_pool m conns a b c)) ''test-mysql'' = Some ex_conn"
  "Config_GetConnection (manager_config (ex_pool m conns a b c)) ''non-existent'' = None"
  by (simp_all add: Config_GetConnection_def ex_pool_def ex_config_def)

lemma ex_raw:
  "createRawConnection (ex_get_ok t h) ex_conn ''test-mysql'' = Inr h"
  "createRawConnection (ex_get_noping t h) ex_conn ''test-mysql'' = Inr h"
  "createRawConnection (ex_get_nocred t) ex_conn ''test-mysql''
     = Inl (FailedToGetCredentials ''test-mysql'' (Collaborator ''credential not found''))"
  "createRawConnection (ex_get_noopen t) ex_conn ''test-mysql''
     = Inl (FailedToOpen (Collaborator ''unknown driver''))"
  by (simp_all add: createRawConnection_def buildDSN_def ex_conn_def ex_get_ok_def
      ex_get_noping_def ex_get_nocred_def ex_get_noopen_def)

lemma ex_create_ok:
  "GetConnection (ex_get_ok t h) (ex_pool m [] 0 0 0) ''test-mysql''
     = (Inr h, ex_pool m [(''test-mysql'', ex_entry ''test-mysql'' (Some h) StateConnected t t 0)] 1 0 0,
        limitEvents h 60000000000)"
  by (simp add: GetConnection_def createConnection_def Config_GetConnection_def
      createRawConnection_def buildDSN_def store_def limitEvents_def
      ex_pool_def ex_config_def ex_conn_def ex_entry_def ex_get_ok_def)

lemma ex_create_nocred:
  "GetConnection (ex_get_nocred t) (ex_pool m [] 0 0 0) ''test-mysql''
     = (Inl (FailedToGetCredentials ''test-mysql'' (Collaborator ''credential not found'')),
        ex_pool m [(''test-mysql'', ex_entry ''test-mysql'' None StateError t zeroTime 1)] 0 0 0,
        [])"
  by (simp add: GetConnection_def createConnection_def Config_GetConnection_def
      createRawConnection_def buildDSN_def store_def
      ex_pool_def ex_config_def ex_conn_def ex_entry_def ex_get_nocred_def)

lemma ex_tick_fail_connected:
  "healthCheck (ex_tick_fail 200)
     (ex_pool 2 [(''test-mysql'', ex_entry ''test-mysql'' (Some 7) StateConnected 100 100 0)] 1 0 0)
   = Some (ex_pool 2 [(''test-mysql'', ex_entry ''test-mysql'' (Some 7) StateError 100 100 1)] 1 0 1, [])"
  by (simp add: healthCheck_def checkConnection_def cleanupIdleConnections_def toRemove_def
      shouldRemove_def time_Sub_def maxDuration_def minDuration_def
      ex_pool_def ex_entry_def ex_tick_fail_def word_sle_eq)

lemma ex_tick_ok_error:
  "healthCheck (ex_tick_ok 300)
     (ex_pool 2 [(''test-mysql'', ex_entry ''test-mysql'' (Some 7) StateError 100 100 1)] 1 0 1)
   = Some (ex_pool 2 [(''test-mysql'', ex_entry ''test-mysql'' (Some 7) StateError 100 100 1)] 1 0 1, [])"
  by (simp add: healthCheck_def checkConnection_def cleanupIdleConnections_def toRemove_def
      shouldRemove_def time_Sub_def maxDuration_def minDuration_def
      ex_pool_def ex_entry_def ex_tick_ok_def)

lemmas ex_defs = ex_pool_def ex_config_def ex_conn_def ex_entry_def ex_get_ok_def
  ex_get_nocred_def ex_get_noopen_def ex_get_noping_def ex_tick_fail_def ex_tick_ok_def

lemmas get_defs = GetConnection_def createConnection_def Config_GetConnection_def
  createRawConnection_def buildDSN_def store_def limitEvents_def fastPath_def

lemmas tick_defs = healthCheck_def checkConnection_def cleanupIdleConnections_def
  toRemove_def shouldRemove_def time_Sub_def maxDuration_def minDuration_def word_sle_eq

lemma ex_retry_nocred:
  "GetConnection (ex_get_nocred t)
     (ex_pool m [(''test-mysql'', ex_entry ''test-mysql'' None StateError t0 zeroTime 1)] 0 0 0)
     ''test-mysql''
   = (Inl (FailedToGetCredentials ''test-mysql'' (Collaborator ''credential not found'')),
      ex_pool m [(''test-mysql'', ex_entry ''test-mysql'' None StateError t zeroTime 1)] 0 0 0,
      [])"
  by (simp add: get_defs ex_defs)

lemma ex_tick_fail_closes:
  "healthCheck (ex_tick_fail 200)
     (ex_pool 1 [(''test-mysql'', ex_entry ''test-mysql'' (Some 7) StateConnected 100 100 0)] 1 0 0)
   = Some (ex_pool 1 [(''test-mysql'', ex_entry ''test-mysql'' None StateDisconnected 100 100 1)] 1 0 1,
           [EvClose 7])"
  by (simp add: tick_defs ex_defs)

lemma ex_recreate:
  "GetConnection (ex_get_ok 300 8)
     (ex_pool 1 [(''test-mysql'', ex_entry ''test-mysql'' None StateDisconnected 100 100 1)] 1 0 1)
     ''test-mysql''
   = (Inr 8,
      ex_pool 1 [(''test-mysql'', ex_entry ''test-mysql'' (Some 8) StateConnected 300 300 0)] 2 0 1,
      limitEvents 8 60000000000)"
  by (simp add: get_defs ex_defs)


subsection \<open>The invariants of the registry\<close>

text \<open>
  A new pool has an empty registry, and every operation keeps the keys of the registry
  distinct and among the configured names.
\<close>

lemma NewConnectionPool_invariants:
  "wf_registry (NewConnectionPool cfg) \<and> registry_configured (NewConnectionPool cfg)"
  by (simp add: NewConnectionPool_def wf_registry_def registry_configured_def Let_def)

lemma touched_wf: "wf_registry p \<Longrightarrow> wf_registry (touched env p name)"
  by (simp add: touched_def wf_store split: option.splits)

lemma createConnection_wf:
  assumes "wf_registry p"
  shows "wf_registry (fst (snd (createConnection env p name)))"
proof (cases "Config_GetConnection (manager_config p) name")
  case None
  with assms show ?thesis by (simp add: createConnection_unconfigured)
next
  case (Some cc)
  have st: "wf_registry (store name c p)" for c
    using assms by (rule wf_store)
  have st': "wf_registry ((store name c p)\<lparr>totalConnections := n\<rparr>)" for c n
    using st [of c] by (simp add: wf_registry_def)
  show ?thesis
  proof (cases "createRawConnection env cc name")
    case (Inl e)
    from createConnection_raw_failed [OF Some Inl] st show ?thesis by simp
  next
    case (Inr db)
    show ?thesis
    proof (cases "db_Ping env db")
      case None
      from createConnection_succeeded [OF Some Inr None] st' show ?thesis by simp
    next
      case (Some e)
      from createConnection_ping_failed
        [OF \<open>Config_GetConnection (manager_config p) name = Some cc\<close> Inr Some] st
      show ?thesis by simp
    qed
  qed
qed

lemma GetConnection_wf:
  assumes "wf_registry p"
  shows "wf_registry (fst (snd (GetConnection env p name)))"
proof (cases "fastPath p name")
  case False
  then show ?thesis
    using createConnection_wf [OF touched_wf [OF assms]]
    by (simp add: GetConnection_slow)
next
  case True
  then obtain conn db where c: "map_of (connections p) name = Some conn"
      "State conn = StateConnected" "DB conn = Some db"
    by (auto simp: fastPath_def split: option.splits)
  from GetConnection_fast [OF c] wf_store [OF assms] show ?thesis by simp
qed

lemma healthCheck_invariants:
  assumes wf: "wf_registry p" and hc: "healthCheck env p = Some (p', evs)"
  shows "wf_registry p'" and "registry_configured p \<Longrightarrow> registry_configured p'"
proof -
  let ?xs = "map (\<lambda>e. (fst e, checked env p (snd e))) (connections p)"
  from healthCheck_result [OF wf, of env] hc
  have conns: "connections p' = filter (\<lambda>e. \<not> shouldRemove (now_cleanup env) p (snd e)) ?xs"
    and cfg: "manager_config p' = manager_config p"
    by auto
  have keys: "map fst ?xs = map fst (connections p)" by (simp add: comp_def)
  from wf have "distinct (map fst ?xs)" unfolding keys wf_registry_def .
  then show "wf_registry p'"
    unfolding wf_registry_def conns by (rule distinct_map_filter)
  assume "registry_configured p"
  then have "\<forall>name \<in> set (map fst ?xs). Config_GetConnection (manager_config p) name \<noteq> None"
    unfolding keys by (simp add: registry_configured_iff)
  then show "registry_configured p'"
    unfolding registry_configured_iff conns cfg by auto
qed

section \<open>The claims\<close>

subsection \<open>C1: recovery of an entry in Error state\<close>

text \<open>
  Claim C1: an entry in \<open>Error\<close> state that still holds a handle is brought back to
  \<open>Connected\<close> by a successful ping of the next monitor tick. The code does not do so:
  \<open>checkConnection\<close> returns at once for every entry in \<open>Error\<close> state, so the branch
  that would recover it is never reached. Evaluated on the test configuration (error
  threshold 2): the connection is created, the ping of the first tick fails and leaves
  the entry in \<open>Error\<close> state with its handle and one error, and the second tick, whose
  ping would succeed, leaves the pool as it was: the state is still \<open>Error\<close>, \<open>LastPing\<close>
  and \<open>ErrorCount\<close> are unchanged and no successful ping is counted.
\<close>

theorem checkConnection_leaves_error_entry:
  "GetConnection (ex_get_ok 100 7) (NewConnectionPool (ex_config 2)) ''test-mysql''
     = (Inr 7,
        ex_pool 2 [(''test-mysql'', ex_entry ''test-mysql'' (Some 7) StateConnected 100 100 0)] 1 0 0,
        limitEvents 7 60000000000)
   \<and> healthCheck (ex_tick_fail 200)
        (ex_pool 2 [(''test-mysql'', ex_entry ''test-mysql'' (Some 7) StateConnected 100 100 0)] 1 0 0)
     = Some (ex_pool 2 [(''test-mysql'', ex_entry ''test-mysql'' (Some 7) StateError 100 100 1)] 1 0 1, [])
   \<and> db_PingContext (ex_tick_ok 300) 7 = None
   \<and> healthCheck (ex_tick_ok 300)
        (ex_pool 2 [(''test-mysql'', ex_entry ''test-mysql'' (Some 7) StateError 100 100 1)] 1 0 1)
     = Some (ex_pool 2 [(''test-mysql'', ex_entry ''test-mysql'' (Some 7) StateError 100 100 1)] 1 0 1, [])"
  using ex_create_ok [of 100 7 2] ex_tick_fail_connected ex_tick_ok_error
  by (simp add: ex_new ex_tick_ok_def)

subsection \<open>C2: closing a handle at the error threshold\<close>


subsection \<open>C3: GetConnection returns the live handle or creates one\<close>

text \<open>
  Claim C3: if the entry of the name is \<open>Connected\<close> with a handle, \<open>GetConnection\<close>
  sets \<open>LastUsed\<close>, returns that handle and does nothing else; otherwise, when the call
  returns a handle, the entry of the name is \<open>Connected\<close>, holds the returned handle,
  has \<open>LastPing\<close> set to the current time and \<open>ErrorCount\<close> 0, and the count of created
  connections has grown by one.
\<close>

theorem GetConnection_reuse_or_create:
  "(map_of (connections p) name = Some conn \<and> State conn = StateConnected \<and> DB conn = Some db
      \<longrightarrow> GetConnection env p name
            = (Inr db, store name (conn\<lparr>LastUsed := now_touch env\<rparr>) p, []))
   \<and> (\<not> fastPath p name \<and> GetConnection env p name = (Inr db', p', evs)
      \<longrightarrow> (\<exists>cc. map_of (connections p') name
                   = Some \<lparr>Name = name, DB = Some db', Config = cc, State = StateConnected,
                           LastUsed = now_lastUsed env, LastPing = now_lastPing env,
                           ErrorCount = 0, CreatedAt = now_createdAt env\<rparr>)
          \<and> totalConnections p' = totalConnections p + 1)"
proof -
  have fast: "map_of (connections p) name = Some conn \<and> State conn = StateConnected \<and> DB conn = Some db
      \<longrightarrow> GetConnection env p name
            = (Inr db, store name (conn\<lparr>LastUsed := now_touch env\<rparr>) p, [])"
    by (simp add: GetConnection_fast)
  have slow: "\<not> fastPath p name \<and> GetConnection env p name = (Inr db', p', evs)
      \<longrightarrow> (\<exists>cc. map_of (connections p') name
                   = Some \<lparr>Name = name, DB = Some db', Config = cc, State = StateConnected,
                           LastUsed = now_lastUsed env, LastPing = now_lastPing env,
                           ErrorCount = 0, CreatedAt = now_createdAt env\<rparr>)
          \<and> totalConnections p' = totalConnections p + 1"
  proof
  assume a: "\<not> fastPath p name \<and> GetConnection env p name = (Inr db', p', evs)"
  let ?q = "touched env p name"
  from a have cr: "createConnection env ?q name = (Inr db', p', evs)"
    using GetConnection_slow [of p name env] by simp
  show "(\<exists>cc. map_of (connections p') name
                   = Some \<lparr>Name = name, DB = Some db', Config = cc, State = StateConnected,
                           LastUsed = now_lastUsed env, LastPing = now_lastPing env,
                           ErrorCount = 0, CreatedAt = now_createdAt env\<rparr>)
          \<and> totalConnections p' = totalConnections p + 1"
  proof (cases "Config_GetConnection (manager_config ?q) name")
    case None
    with cr show ?thesis by (simp add: createConnection_unconfigured)
  next
    case (Some cc)
    show ?thesis
    proof (cases "createRawConnection env cc name")
      case (Inl err)
      with cr Some show ?thesis by (simp add: createConnection_raw_failed)
    next
      case (Inr db)
      show ?thesis
      proof (cases "db_Ping env db")
        case (Some err)
        with cr \<open>Config_GetConnection (manager_config ?q) name = Some cc\<close> Inr show ?thesis
          by (simp add: createConnection_ping_failed)
      next
        case None
        from createConnection_succeeded [OF \<open>Config_GetConnection (manager_config ?q) name = Some cc\<close> Inr None] cr
        have "db' = db" and
          p': "p' = (store name \<lparr>Name = name, DB = Some db, Config = cc, State = StateConnected,
                   LastUsed = now_lastUsed env, LastPing = now_lastPing env,
                   ErrorCount = 0, CreatedAt = now_createdAt env\<rparr> ?q)
                \<lparr>totalConnections := totalConnections ?q + 1\<rparr>"
          by simp_all
        show ?thesis unfolding p' \<open>db' = db\<close>
          by (simp add: map_of_store touched_fields)
      qed
    qed
  qed
  qed
  show ?thesis by (rule conjI [OF fast slow])
qed

text \<open>
  Both halves on the example: the first call on the empty pool creates the connection,
  a later call returns the same handle and only moves \<open>LastUsed\<close>.
\<close>

theorem GetConnection_reuse_or_create_witness:
  "map_of (connections
      (ex_pool 2 [(''test-mysql'', ex_entry ''test-mysql'' (Some 7) StateConnected 100 100 0)] 1 0 0))
      ''test-mysql'' = Some (ex_entry ''test-mysql'' (Some 7) StateConnected 100 100 0)
   \<and> State (ex_entry ''test-mysql'' (Some 7) StateConnected 100 100 0) = StateConnected
   \<and> DB (ex_entry ''test-mysql'' (Some 7) StateConnected 100 100 0) = Some 7
   \<and> GetConnection (ex_get_ok 500 9)
        (ex_pool 2 [(''test-mysql'', ex_entry ''test-mysql'' (Some 7) StateConnected 100 100 0)] 1 0 0)
        ''test-mysql''
      = (Inr 7,
         ex_pool 2 [(''test-mysql'',
                     (ex_entry ''test-mysql'' (Some 7) StateConnected 100 100 0)\<lparr>LastUsed := 500\<rparr>)]
           1 0 0,
         [])
   \<and> \<not> fastPath (ex_pool 2 [] 0 0 0) ''test-mysql''
   \<and> GetConnection (ex_get_ok 100 7) (ex_pool 2 [] 0 0 0) ''test-mysql''
      = (Inr 7,
         ex_pool 2 [(''test-mysql'', ex_entry ''test-mysql'' (Some 7) StateConnected 100 100 0)] 1 0 0,
         limitEvents 7 60000000000)
   \<and> (\<exists>cc. map_of (connections
          (ex_pool 2 [(''test-mysql'', ex_entry ''test-mysql'' (Some 7) StateConnected 100 100 0)] 1 0 0))
          ''test-mysql''
        = Some \<lparr>Name = ''test-mysql'', DB = Some 7, Config = cc, State = StateConnected,
                LastUsed = 100, LastPing = 100, ErrorCount = 0, CreatedAt = 100\<rparr>)
   \<and> totalConnections
        (ex_pool 2 [(''test-mysql'', ex_entry ''test-mysql'' (Some 7) StateConnected 100 100 0)] 1 0 0)
      = totalConnections (ex_pool 2 [] 0 0 0) + 1"
proof -
  let ?e = "ex_entry ''test-mysql'' (Some 7) StateConnected 100 100 0"
  let ?P1 = "ex_pool 2 [(''test-mysql'', ?e)] 1 0 0"
  let ?P0 = "ex_pool 2 [] 0 0 0"
  have h: "map_of (connections ?P1) ''test-mysql'' = Some ?e \<and> State ?e = StateConnected
      \<and> DB ?e = Some 7"
    by (simp add: ex_pool_def ex_entry_def)
  have slow: "\<not> fastPath ?P0 ''test-mysql''"
    by (simp add: fastPath_def ex_pool_def)
  have create: "GetConnection (ex_get_ok 100 7) ?P0 ''test-mysql''
      = (Inr 7, ?P1, limitEvents 7 60000000000)"
    by (rule ex_create_ok)
  from GetConnection_reuse_or_create
    [of ?P1 "''test-mysql''" ?e 7 "ex_get_ok 500 9"] h
  have reuse: "GetConnection (ex_get_ok 500 9) ?P1 ''test-mysql''
      = (Inr 7, store ''test-mysql'' (?e\<lparr>LastUsed := now_touch (ex_get_ok 500 9)\<rparr>) ?P1, [])"
    by blast
  from GetConnection_reuse_or_create
    [of ?P0 "''test-mysql''" _ _ "ex_get_ok 100 7" 7 ?P1 "limitEvents 7 60000000000"]
    slow create
  have made: "(\<exists>cc. map_of (connections ?P1) ''test-mysql''
        = Some \<lparr>Name = ''test-mysql'', DB = Some 7, Config = cc, State = StateConnected,
                LastUsed = now_lastUsed (ex_get_ok 100 7),
                LastPing = now_lastPing (ex_get_ok 100 7), ErrorCount = 0,
                CreatedAt = now_createdAt (ex_get_ok 100 7)\<rparr>)
      \<and> totalConnections ?P1 = totalConnections ?P0 + 1"
    by blast
  have times: "now_lastUsed (ex_get_ok 100 7) = 100" "now_lastPing (ex_get_ok 100 7) = 100"
      "now_createdAt (ex_get_ok 100 7) = 100" "now_touch (ex_get_ok 500 9) = 500"
    by (simp_all add: ex_get_ok_def)
  have st: "store ''test-mysql'' (?e\<lparr>LastUsed := 500\<rparr>) ?P1
      = ex_pool 2 [(''test-mysql'', ?e\<lparr>LastUsed := 500\<rparr>)] 1 0 0"
    by (simp add: store_def ex_pool_def)
  from h slow create reuse made show ?thesis
    unfolding times st by (intro conjI) simp_all
qed

subsection \<open>C4: a failed creation leaves an entry in Error state\<close>

text \<open>
  Claim C4: for a configured name on the creation path, a failure of the credential
  store comes back inside the error of \<open>createRawConnection\<close>, every error of
  \<open>createRawConnection\<close> (credentials, connection string, open) is returned as it is, a
  failure of the first ping comes back inside the error of \<open>createConnection\<close> (both
  wrap with the verb \<open>%w\<close>, so \<open>Unwrap\<close> gives the underlying error), and after any
  failed call the registry holds an entry for the name in \<open>Error\<close> state, with error
  count 1 (the new entry's 0, incremented) and no handle.
\<close>

theorem GetConnection_failure_registers_error_entry:
  assumes cfg: "Config_GetConnection (manager_config p) name = Some cc"
    and slow: "\<not> fastPath p name"
  shows
    "(Username cc \<noteq> [] \<and> credManager_Get env name (Username cc) = Inl e
        \<longrightarrow> fst (GetConnection env p name) = Inl (FailedToGetCredentials name e)
            \<and> Unwrap (FailedToGetCredentials name e) = Some e)
     \<and> (createRawConnection env cc name = Inl err
        \<longrightarrow> fst (GetConnection env p name) = Inl err)
     \<and> (createRawConnection env cc name = Inr db \<and> db_Ping env db = Some e
        \<longrightarrow> fst (GetConnection env p name) = Inl (FailedToPing e)
            \<and> Unwrap (FailedToPing e) = Some e)
     \<and> (fst (GetConnection env p name) = Inl err
        \<longrightarrow> map_of (connections (fst (snd (GetConnection env p name)))) name
             = Some \<lparr>Name = name, DB = None, Config = cc, State = StateError,
                     LastUsed = now_lastUsed env, LastPing = zeroTime, ErrorCount = 1,
                     CreatedAt = now_createdAt env\<rparr>)"
proof -
  let ?q = "touched env p name"
  have gc: "GetConnection env p name = createConnection env ?q name"
    using slow by (rule GetConnection_slow)
  have cfg': "Config_GetConnection (manager_config ?q) name = Some cc"
    using cfg by (simp add: touched_fields)
  have raw: "createRawConnection env cc name = Inl err
        \<longrightarrow> fst (GetConnection env p name) = Inl err"
    unfolding gc by (simp add: createConnection_raw_failed [OF cfg'])
  have cred: "Username cc \<noteq> [] \<and> credManager_Get env name (Username cc) = Inl e
        \<longrightarrow> fst (GetConnection env p name) = Inl (FailedToGetCredentials name e)
            \<and> Unwrap (FailedToGetCredentials name e) = Some e"
  proof
    assume "Username cc \<noteq> [] \<and> credManager_Get env name (Username cc) = Inl e"
    then have "createRawConnection env cc name = Inl (FailedToGetCredentials name e)"
      by (simp add: createRawConnection_credentials_failed)
    from createConnection_raw_failed [OF cfg' this]
    show "fst (GetConnection env p name) = Inl (FailedToGetCredentials name e)
            \<and> Unwrap (FailedToGetCredentials name e) = Some e"
      unfolding gc by simp
  qed
  have ping: "createRawConnection env cc name = Inr db \<and> db_Ping env db = Some e
        \<longrightarrow> fst (GetConnection env p name) = Inl (FailedToPing e)
            \<and> Unwrap (FailedToPing e) = Some e"
    unfolding gc by (simp add: createConnection_ping_failed [OF cfg'])
  have entry: "fst (GetConnection env p name) = Inl err
        \<longrightarrow> map_of (connections (fst (snd (GetConnection env p name)))) name
             = Some \<lparr>Name = name, DB = None, Config = cc, State = StateError,
                     LastUsed = now_lastUsed env, LastPing = zeroTime, ErrorCount = 1,
                     CreatedAt = now_createdAt env\<rparr>"
  proof
    assume f: "fst (GetConnection env p name) = Inl err"
    obtain r p' evs where res: "createConnection env ?q name = (r, p', evs)"
      by (cases "createConnection env ?q name")
    with f gc have "createConnection env ?q name = (Inl err, p', evs)" by simp
    from createConnection_failed_entry [OF cfg' this] res
    show "map_of (connections (fst (snd (GetConnection env p name)))) name
             = Some \<lparr>Name = name, DB = None, Config = cc, State = StateError,
                     LastUsed = now_lastUsed env, LastPing = zeroTime, ErrorCount = 1,
                     CreatedAt = now_createdAt env\<rparr>"
      unfolding gc by (simp add: map_of_store)
  qed
  from cred raw ping entry show ?thesis by (intro conjI)
qed

text \<open>
  The three failures on the example: no credentials, no driver, no answer to the ping.
\<close>

theorem GetConnection_failure_registers_error_entry_witness:
  "Config_GetConnection (manager_config (ex_pool 2 [] 0 0 0)) ''test-mysql'' = Some ex_conn
   \<and> \<not> fastPath (ex_pool 2 [] 0 0 0) ''test-mysql''
   \<and> Username ex_conn \<noteq> []
   \<and> credManager_Get (ex_get_nocred 100) ''test-mysql'' (Username ex_conn)
       = Inl (Collaborator ''credential not found'')
   \<and> fst (GetConnection (ex_get_nocred 100) (ex_pool 2 [] 0 0 0) ''test-mysql'')
       = Inl (FailedToGetCredentials ''test-mysql'' (Collaborator ''credential not found''))
   \<and> map_of (connections (fst (snd
         (GetConnection (ex_get_nocred 100) (ex_pool 2 [] 0 0 0) ''test-mysql'')))) ''test-mysql''
       = Some \<lparr>Name = ''test-mysql'', DB = None, Config = ex_conn, State = StateError,
               LastUsed = 100, LastPing = zeroTime, ErrorCount = 1, CreatedAt = 100\<rparr>
   \<and> createRawConnection (ex_get_noopen 100) ex_conn ''test-mysql''
       = Inl (FailedToOpen (Collaborator ''unknown driver''))
   \<and> fst (GetConnection (ex_get_noopen 100) (ex_pool 2 [] 0 0 0) ''test-mysql'')
       = Inl (FailedToOpen (Collaborator ''unknown driver''))
   \<and> createRawConnection (ex_get_noping 100 7) ex_conn ''test-mysql'' = Inr 7
   \<and> db_Ping (ex_get_noping 100 7) 7 = Some (Collaborator ''connection refused'')
   \<and> fst (GetConnection (ex_get_noping 100 7) (ex_pool 2 [] 0 0 0) ''test-mysql'')
       = Inl (FailedToPing (Collaborator ''connection refused''))
   \<and> map_of (connections (fst (snd
         (GetConnection (ex_get_noping 100 7) (ex_pool 2 [] 0 0 0) ''test-mysql'')))) ''test-mysql''
       = Some \<lparr>Name = ''test-mysql'', DB = None, Config = ex_conn, State = StateError,
               LastUsed = 100, LastPing = zeroTime, ErrorCount = 1, CreatedAt = 100\<rparr>"
proof -
  let ?P0 = "ex_pool 2 [] 0 0 0"
  have cfg: "Config_GetConnection (manager_config ?P0) ''test-mysql'' = Some ex_conn"
    by (rule ex_lookup)
  have slow: "\<not> fastPath ?P0 ''test-mysql''"
    by (simp add: fastPath_def ex_pool_def)
  have user: "Username ex_conn \<noteq> []" by (simp add: ex_conn_def)
  have cred: "credManager_Get (ex_get_nocred 100) ''test-mysql'' (Username ex_conn)
       = Inl (Collaborator ''credential not found'')"
    by (simp add: ex_get_nocred_def)
  have "open": "createRawConnection (ex_get_noopen 100) ex_conn ''test-mysql''
       = Inl (FailedToOpen (Collaborator ''unknown driver''))"
    by (rule ex_raw)
  have raw: "createRawConnection (ex_get_noping 100 7) ex_conn ''test-mysql'' = Inr 7"
    by (rule ex_raw)
  have ping: "db_Ping (ex_get_noping 100 7) 7 = Some (Collaborator ''connection refused'')"
    by (simp add: ex_get_noping_def)
  note a = GetConnection_failure_registers_error_entry [OF cfg slow,
      of "ex_get_nocred 100" "Collaborator ''credential not found''"
         "FailedToGetCredentials ''test-mysql'' (Collaborator ''credential not found'')"]
  note b = GetConnection_failure_registers_error_entry [OF cfg slow,
      of "ex_get_noopen 100" _ "FailedToOpen (Collaborator ''unknown driver'')"]
  note c = GetConnection_failure_registers_error_entry [OF cfg slow,
      of "ex_get_noping 100 7" "Collaborator ''connection refused''"
         "FailedToPing (Collaborator ''connection refused'')" 7]
  have r1: "fst (GetConnection (ex_get_nocred 100) ?P0 ''test-mysql'')
       = Inl (FailedToGetCredentials ''test-mysql'' (Collaborator ''credential not found''))"
    using a user cred by blast
  have r2: "fst (GetConnection (ex_get_noopen 100) ?P0 ''test-mysql'')
       = Inl (FailedToOpen (Collaborator ''unknown driver''))"
    using b "open" by blast
  have r3: "fst (GetConnection (ex_get_noping 100 7) ?P0 ''test-mysql'')
       = Inl (FailedToPing (Collaborator ''connection refused''))"
    using c raw ping by blast
  have e1: "map_of (connections (fst (snd
         (GetConnection (ex_get_nocred 100) ?P0 ''test-mysql'')))) ''test-mysql''
       = Some \<lparr>Name = ''test-mysql'', DB = None, Config = ex_conn, State = StateError,
               LastUsed = now_lastUsed (ex_get_nocred 100), LastPing = zeroTime,
               ErrorCount = 1, CreatedAt = now_createdAt (ex_get_nocred 100)\<rparr>"
    using a r1 by blast
  have e3: "map_of (connections (fst (snd
         (GetConnection (ex_get_noping 100 7) ?P0 ''test-mysql'')))) ''test-mysql''
       = Some \<lparr>Name = ''test-mysql'', DB = None, Config = ex_conn, State = StateError,
               LastUsed = now_lastUsed (ex_get_noping 100 7), LastPing = zeroTime,
               ErrorCount = 1, CreatedAt = now_createdAt (ex_get_noping 100 7)\<rparr>"
    using c r3 by blast
  have times: "now_lastUsed (ex_get_nocred 100) = 100" "now_createdAt (ex_get_nocred 100) = 100"
      "now_lastUsed (ex_get_noping 100 7) = 100" "now_createdAt (ex_get_noping 100 7) = 100"
    by (simp_all add: ex_get_nocred_def ex_get_noping_def)
  from cfg slow user cred r1 e1 "open" r2 raw ping r3 e3 show ?thesis
    unfolding times by (intro conjI)
qed

subsection \<open>C5: the reap pass\<close>

text \<open>
  Claim C5: the reap pass keeps every \<open>Connected\<close> entry, whatever its \<open>LastUsed\<close>; it
  removes every entry that is not \<open>Connected\<close> and whose idle time exceeds the maximum
  idle time; and the handle of a removed entry, if it has one, is closed immediately
  before the entry is deleted.
\<close>

theorem cleanupIdleConnections_reaps_idle_unhealthy:
  assumes wf: "wf_registry p"
  shows "\<exists>p' evs. cleanupIdleConnections now p = Some (p', evs)
     \<and> (\<forall>e \<in> set (connections p). State (snd e) = StateConnected
           \<longrightarrow> map_of (connections p') (fst e) = Some (snd e))
     \<and> (\<forall>e \<in> set (connections p).
           State (snd e) \<noteq> StateConnected \<and> maxIdleTime p < time_Sub now (LastUsed (snd e))
           \<longrightarrow> map_of (connections p') (fst e) = None
               \<and> (\<forall>db. DB (snd e) = Some db
                     \<longrightarrow> (\<exists>pre post. evs = pre @ [EvClose db, EvDelete (fst e)] @ post)))"
proof -
  let ?xs = "connections p"
  let ?keep = "filter (\<lambda>e. \<not> shouldRemove now p (snd e)) ?xs"
  let ?drop = "filter (\<lambda>e. shouldRemove now p (snd e)) ?xs"
  let ?p' = "p\<lparr>connections := ?keep\<rparr>"
  let ?evs = "concat (map removalEvents ?drop)"
  have dx: "distinct (map fst ?xs)" using wf by (simp add: wf_registry_def)
  have dk: "distinct (map fst ?keep)" using dx by (rule distinct_map_filter)
  have res: "cleanupIdleConnections now p = Some (?p', ?evs)"
    using wf by (rule cleanup_result)
  have kept: "\<forall>e \<in> set ?xs. State (snd e) = StateConnected
           \<longrightarrow> map_of (connections ?p') (fst e) = Some (snd e)"
  proof (intro ballI impI)
    fix e assume e: "e \<in> set ?xs" and "State (snd e) = StateConnected"
    then have "e \<in> set ?keep" by (simp add: shouldRemove_def)
    then have "(fst e, snd e) \<in> set ?keep" by simp
    with dk show "map_of (connections ?p') (fst e) = Some (snd e)"
      by (simp add: map_of_is_SomeI del: prod.collapse)
  qed
  have gone: "\<forall>e \<in> set ?xs.
           State (snd e) \<noteq> StateConnected \<and> maxIdleTime p < time_Sub now (LastUsed (snd e))
           \<longrightarrow> map_of (connections ?p') (fst e) = None
               \<and> (\<forall>db. DB (snd e) = Some db
                     \<longrightarrow> (\<exists>pre post. ?evs = pre @ [EvClose db, EvDelete (fst e)] @ post))"
  proof (intro ballI impI conjI allI)
    fix e assume e: "e \<in> set ?xs"
      and c: "State (snd e) \<noteq> StateConnected \<and> maxIdleTime p < time_Sub now (LastUsed (snd e))"
    then have sr: "shouldRemove now p (snd e)" by (simp add: shouldRemove_def)
    have "fst e \<notin> fst ` set ?keep"
    proof
      assume "fst e \<in> fst ` set ?keep"
      then obtain e' where e': "e' \<in> set ?xs" "\<not> shouldRemove now p (snd e')" "fst e' = fst e"
        by auto
      from dx e e' have "e' = e"
        by (metis eq_key_imp_eq_value prod.collapse)
      with sr e' show False by simp
    qed
    then show "map_of (connections ?p') (fst e) = None"
      by (simp add: map_of_eq_None_iff)
    fix db assume "DB (snd e) = Some db"
    moreover from e sr have "e \<in> set ?drop" by simp
    ultimately show "\<exists>pre post. ?evs = pre @ [EvClose db, EvDelete (fst e)] @ post"
      by (rule removalEvents_in_order [rotated])
  qed
  from res kept gone show ?thesis by blast
qed

text \<open>
  The reap pass on four entries, 100 seconds after the old ones were last used and with
  a maximum idle time of 60 seconds: the old \<open>Connected\<close> entry and the recent
  \<open>Disconnected\<close> one stay, the old \<open>Error\<close> entry has its handle 3 closed and is deleted,
  the old \<open>Disconnected\<close> entry is deleted.
\<close>

theorem cleanupIdleConnections_reaps_idle_unhealthy_witness:
  "wf_registry ex_reap_pool
   \<and> cleanupIdleConnections 100000000000 ex_reap_pool
      = Some (ex_pool 2
                [(''old-connected'', ex_entry ''old-connected'' (Some 4) StateConnected 0 0 0),
                 (''recent-disconnected'',
                    ex_entry ''recent-disconnected'' None StateDisconnected 90000000000 0 2)]
                2 0 2,
              [EvClose 3, EvDelete ''old-error'', EvDelete ''old-disconnected''])
   \<and> (\<exists>p' evs. cleanupIdleConnections 100000000000 ex_reap_pool = Some (p', evs)
        \<and> map_of (connections p') ''old-connected''
            = Some (ex_entry ''old-connected'' (Some 4) StateConnected 0 0 0)
        \<and> map_of (connections p') ''old-error'' = None
        \<and> (\<exists>pre post. evs = pre @ [EvClose 3, EvDelete ''old-error''] @ post))"
proof -
  let ?old = "(''old-error'', ex_entry ''old-error'' (Some 3) StateError 0 0 1)"
  let ?con = "(''old-connected'', ex_entry ''old-connected'' (Some 4) StateConnected 0 0 0)"
  have wf: "wf_registry ex_reap_pool"
    by (simp add: wf_registry_def ex_reap_pool_def ex_pool_def)
  have run: "cleanupIdleConnections 100000000000 ex_reap_pool
      = Some (ex_pool 2
                [?con,
                 (''recent-disconnected'',
                    ex_entry ''recent-disconnected'' None StateDisconnected 90000000000 0 2)]
                2 0 2,
              [EvClose 3, EvDelete ''old-error'', EvDelete ''old-disconnected''])"
    by (simp add: tick_defs ex_reap_pool_def ex_pool_def ex_entry_def)
  have mem: "?old \<in> set (connections ex_reap_pool)" "?con \<in> set (connections ex_reap_pool)"
    by (simp_all add: ex_reap_pool_def ex_pool_def)
  have idle: "State (snd ?old) \<noteq> StateConnected
      \<and> maxIdleTime ex_reap_pool < time_Sub 100000000000 (LastUsed (snd ?old))"
    by (simp add: ex_reap_pool_def ex_pool_def ex_entry_def time_Sub_def maxDuration_def
        minDuration_def)
  have conn: "State (snd ?con) = StateConnected" "DB (snd ?old) = Some 3"
    by (simp_all add: ex_entry_def)
  from cleanupIdleConnections_reaps_idle_unhealthy [OF wf, of 100000000000]
  obtain p' evs where res: "cleanupIdleConnections 100000000000 ex_reap_pool = Some (p', evs)"
    and kept: "\<forall>e \<in> set (connections ex_reap_pool). State (snd e) = StateConnected
           \<longrightarrow> map_of (connections p') (fst e) = Some (snd e)"
    and gone: "\<forall>e \<in> set (connections ex_reap_pool).
           State (snd e) \<noteq> StateConnected
             \<and> maxIdleTime ex_reap_pool < time_Sub 100000000000 (LastUsed (snd e))
           \<longrightarrow> map_of (connections p') (fst e) = None
               \<and> (\<forall>db. DB (snd e) = Some db
                     \<longrightarrow> (\<exists>pre post. evs = pre @ [EvClose db, EvDelete (fst e)] @ post))"
    by blast
  from kept mem(2) conn(1)
  have k: "map_of (connections p') ''old-connected''
            = Some (ex_entry ''old-connected'' (Some 4) StateConnected 0 0 0)"
    by force
  from gone mem(1) idle conn(2)
  have g: "map_of (connections p') ''old-error'' = None
        \<and> (\<exists>pre post. evs = pre @ [EvClose 3, EvDelete ''old-error''] @ post)"
    by force
  from wf run res k g show ?thesis by blast
qed

subsection \<open>C6: when CreatedAt is set\<close>

text \<open>
  The statement as the specification has it fails. With error threshold 1: the connection
  is created at time 100, one failing ping closes it and leaves the entry \<open>Disconnected\<close>
  with \<open>CreatedAt\<close> 100, and the next \<open>GetConnection\<close>, at time 300, replaces the entry by
  one whose \<open>CreatedAt\<close> is 300.
\<close>

theorem CreatedAt_changes_on_recreation:
  "GetConnection (ex_get_ok 100 7) (NewConnectionPool (ex_config 1)) ''test-mysql''
     = (Inr 7,
        ex_pool 1 [(''test-mysql'', ex_entry ''test-mysql'' (Some 7) StateConnected 100 100 0)] 1 0 0,
        limitEvents 7 60000000000)
   \<and> CreatedAt (ex_entry ''test-mysql'' (Some 7) StateConnected 100 100 0) = 100
   \<and> healthCheck (ex_tick_fail 200)
        (ex_pool 1 [(''test-mysql'', ex_entry ''test-mysql'' (Some 7) StateConnected 100 100 0)] 1 0 0)
     = Some (ex_pool 1 [(''test-mysql'', ex_entry ''test-mysql'' None StateDisconnected 100 100 1)] 1 0 1,
             [EvClose 7])
   \<and> CreatedAt (ex_entry ''test-mysql'' None StateDisconnected 100 100 1) = 100
   \<and> GetConnection (ex_get_ok 300 8)
        (ex_pool 1 [(''test-mysql'', ex_entry ''test-mysql'' None StateDisconnected 100 100 1)] 1 0 1)
        ''test-mysql''
     = (Inr 8,
        ex_pool 1 [(''test-mysql'', ex_entry ''test-mysql'' (Some 8) StateConnected 300 300 0)] 2 0 1,
        limitEvents 8 60000000000)
   \<and> CreatedAt (ex_entry ''test-mysql'' (Some 8) StateConnected 300 300 0) = 300"
  using ex_create_ok [of 100 7 1] ex_tick_fail_closes ex_recreate
  by (simp add: ex_new ex_entry_def)

text \<open>
  Claim C6, as amended: \<open>CreatedAt\<close> is not changed by \<open>checkConnection\<close>, by a whole
  health-check pass, or by a \<open>GetConnection\<close> that returns the handle of the existing
  \<open>Connected\<close> entry; a \<open>GetConnection\<close> that takes the creation path for a configured
  name leaves an entry whose \<open>CreatedAt\<close> is the clock reading taken when
  \<open>createConnection\<close> built it, whatever entry was there before and whether or not the
  handle could be opened.
\<close>

theorem CreatedAt_set_by_createConnection:
  "CreatedAt (fst (snd (checkConnection tenv p conn))) = CreatedAt conn
   \<and> (wf_registry p \<and> healthCheck tenv p = Some (p', evs)
        \<and> map_of (connections p') name = Some c'
      \<longrightarrow> (\<exists>c. map_of (connections p) name = Some c \<and> CreatedAt c' = CreatedAt c))
   \<and> (map_of (connections p) name = Some conn \<and> State conn = StateConnected
        \<and> DB conn = Some db
      \<longrightarrow> map_of (connections (fst (snd (GetConnection env p name)))) name
           = Some (conn\<lparr>LastUsed := now_touch env\<rparr>))
   \<and> (\<not> fastPath p name \<and> Config_GetConnection (manager_config p) name = Some cc
      \<longrightarrow> (\<exists>c. map_of (connections (fst (snd (GetConnection env p name)))) name = Some c
            \<and> CreatedAt c = now_createdAt env))"
proof -
  have check: "CreatedAt (fst (snd (checkConnection tenv p conn))) = CreatedAt conn"
    using checkConnection_static(1) [of tenv p conn] by (simp add: checked_def)
  have pass: "wf_registry p \<and> healthCheck tenv p = Some (p', evs)
        \<and> map_of (connections p') name = Some c'
      \<longrightarrow> (\<exists>c. map_of (connections p) name = Some c \<and> CreatedAt c' = CreatedAt c)"
  proof
    assume a: "wf_registry p \<and> healthCheck tenv p = Some (p', evs)
        \<and> map_of (connections p') name = Some c'"
    then have wf: "wf_registry p" by simp
    let ?xs = "map (\<lambda>e. (fst e, checked tenv p (snd e))) (connections p)"
    from healthCheck_result [OF wf, of tenv] a
    have conns: "connections p' = filter (\<lambda>e. \<not> shouldRemove (now_cleanup tenv) p (snd e)) ?xs"
      by auto
    from a have "(name, c') \<in> set (connections p')" by (simp add: map_of_SomeD)
    then have "(name, c') \<in> set ?xs" unfolding conns by simp
    then obtain c where c: "(name, c) \<in> set (connections p)" "c' = checked tenv p c"
      by auto
    from wf c(1) have "map_of (connections p) name = Some c"
      by (simp add: wf_registry_def map_of_is_SomeI)
    with c(2) show "\<exists>c. map_of (connections p) name = Some c \<and> CreatedAt c' = CreatedAt c"
      by (simp add: checkConnection_static)
  qed
  have fast: "map_of (connections p) name = Some conn \<and> State conn = StateConnected
        \<and> DB conn = Some db
      \<longrightarrow> map_of (connections (fst (snd (GetConnection env p name)))) name
           = Some (conn\<lparr>LastUsed := now_touch env\<rparr>)"
    by (simp add: GetConnection_fast map_of_store)
  have slow: "\<not> fastPath p name \<and> Config_GetConnection (manager_config p) name = Some cc
      \<longrightarrow> (\<exists>c. map_of (connections (fst (snd (GetConnection env p name)))) name = Some c
            \<and> CreatedAt c = now_createdAt env)"
  proof
    assume a: "\<not> fastPath p name \<and> Config_GetConnection (manager_config p) name = Some cc"
    let ?q = "touched env p name"
    obtain r q' es where res: "createConnection env ?q name = (r, q', es)"
      by (cases "createConnection env ?q name")
    from a have cfg': "Config_GetConnection (manager_config ?q) name = Some cc"
      by (simp add: touched_fields)
    from a have gc: "GetConnection env p name = createConnection env ?q name"
      by (simp add: GetConnection_slow)
    from createConnection_entry [OF cfg' res]
    show "\<exists>c. map_of (connections (fst (snd (GetConnection env p name)))) name = Some c
            \<and> CreatedAt c = now_createdAt env"
      unfolding gc res by simp
  qed
  from check pass fast slow show ?thesis by (intro conjI)
qed

text \<open>
  The amended statement along the same run.
\<close>

theorem CreatedAt_set_by_createConnection_witness:
  "CreatedAt (fst (snd (checkConnection (ex_tick_fail 200)
        (ex_pool 1 [(''test-mysql'', ex_entry ''test-mysql'' (Some 7) StateConnected 100 100 0)] 1 0 0)
        (ex_entry ''test-mysql'' (Some 7) StateConnected 100 100 0))))
     = CreatedAt (ex_entry ''test-mysql'' (Some 7) StateConnected 100 100 0)
   \<and> wf_registry
        (ex_pool 1 [(''test-mysql'', ex_entry ''test-mysql'' (Some 7) StateConnected 100 100 0)] 1 0 0)
   \<and> healthCheck (ex_tick_fail 200)
        (ex_pool 1 [(''test-mysql'', ex_entry ''test-mysql'' (Some 7) StateConnected 100 100 0)] 1 0 0)
     = Some (ex_pool 1 [(''test-mysql'', ex_entry ''test-mysql'' None StateDisconnected 100 100 1)] 1 0 1,
             [EvClose 7])
   \<and> (\<exists>c. map_of (connections
          (ex_pool 1 [(''test-mysql'', ex_entry ''test-mysql'' (Some 7) StateConnected 100 100 0)] 1 0 0))
          ''test-mysql'' = Some c
         \<and> CreatedAt (ex_entry ''test-mysql'' None StateDisconnected 100 100 1) = CreatedAt c)
   \<and> map_of (connections (fst (snd (GetConnection (ex_get_ok 500 9)
        (ex_pool 1 [(''test-mysql'', ex_entry ''test-mysql'' (Some 7) StateConnected 100 100 0)] 1 0 0)
        ''test-mysql'')))) ''test-mysql''
     = Some ((ex_entry ''test-mysql'' (Some 7) StateConnected 100 100 0)\<lparr>LastUsed := 500\<rparr>)
   \<and> \<not> fastPath
        (ex_pool 1 [(''test-mysql'', ex_entry ''test-mysql'' None StateDisconnected 100 100 1)] 1 0 1)
        ''test-mysql''
   \<and> (\<exists>c. map_of (connections (fst (snd (GetConnection (ex_get_ok 300 8)
          (ex_pool 1 [(''test-mysql'', ex_entry ''test-mysql'' None StateDisconnected 100 100 1)] 1 0 1)
          ''test-mysql'')))) ''test-mysql'' = Some c
         \<and> CreatedAt c = 300)"
proof -
  let ?e1 = "ex_entry ''test-mysql'' (Some 7) StateConnected 100 100 0"
  let ?e2 = "ex_entry ''test-mysql'' None StateDisconnected 100 100 1"
  let ?P1 = "ex_pool 1 [(''test-mysql'', ?e1)] 1 0 0"
  let ?P2 = "ex_pool 1 [(''test-mysql'', ?e2)] 1 0 1"
  note t1 = CreatedAt_set_by_createConnection
    [where tenv = "ex_tick_fail 200" and p = ?P1 and conn = ?e1 and p' = ?P2
       and evs = "[EvClose 7]" and name = "''test-mysql''" and c' = ?e2 and db = 7
       and env = "ex_get_ok 500 9"]
  note t2 = CreatedAt_set_by_createConnection
    [where p = ?P2 and name = "''test-mysql''" and env = "ex_get_ok 300 8" and cc = ex_conn]
  have wf: "wf_registry ?P1" by (simp add: wf_registry_def ex_pool_def)
  have hc: "healthCheck (ex_tick_fail 200) ?P1 = Some (?P2, [EvClose 7])"
    by (rule ex_tick_fail_closes)
  have look2: "map_of (connections ?P2) ''test-mysql'' = Some ?e2" by (simp add: ex_pool_def)
  have look1: "map_of (connections ?P1) ''test-mysql'' = Some ?e1 \<and> State ?e1 = StateConnected
      \<and> DB ?e1 = Some 7"
    by (simp add: ex_pool_def ex_entry_def)
  have slow: "\<not> fastPath ?P2 ''test-mysql''"
    by (simp add: fastPath_def ex_pool_def ex_entry_def)
  have cfg: "Config_GetConnection (manager_config ?P2) ''test-mysql'' = Some ex_conn"
    by (rule ex_lookup)
  have now: "now_createdAt (ex_get_ok 300 8) = 300" "now_touch (ex_get_ok 500 9) = 500"
    by (simp_all add: ex_get_ok_def)
  from t1 have c1: "CreatedAt (fst (snd (checkConnection (ex_tick_fail 200) ?P1 ?e1)))
      = CreatedAt ?e1"
    by (rule conjunct1)
  from t1 wf hc look2
  have c2: "\<exists>c. map_of (connections ?P1) ''test-mysql'' = Some c \<and> CreatedAt ?e2 = CreatedAt c"
    by blast
  from t1 look1
  have c3: "map_of (connections (fst (snd (GetConnection (ex_get_ok 500 9) ?P1 ''test-mysql''))))
      ''test-mysql'' = Some (?e1\<lparr>LastUsed := 500\<rparr>)"
    unfolding now by blast
  from t2 slow cfg
  have c4: "\<exists>c. map_of (connections (fst (snd (GetConnection (ex_get_ok 300 8) ?P2 ''test-mysql''))))
      ''test-mysql'' = Some c \<and> CreatedAt c = 300"
    unfolding now by blast
  from c1 wf hc c2 c3 slow c4 show ?thesis by (intro conjI)
qed

subsection \<open>C7: a name that is not configured\<close>

text \<open>
  Claim C7: \<open>GetConnection\<close> for a name that is not in the configuration returns the
  not-found error and leaves the pool unchanged. The registry only ever holds configured
  names (\<open>registry_configured\<close>, kept by every operation).
\<close>

theorem GetConnection_not_configured:
  assumes "registry_configured p" and "Config_GetConnection (manager_config p) name = None"
  shows "GetConnection env p name = (Inl (NotFoundInConfiguration name), p, [])"
  using unconfigured_absent [OF assms] assms(2)
  by (simp add: GetConnection_def createConnection_def)

text \<open>
  The call for \<open>non-existent\<close> on a pool that holds the connection \<open>test-mysql\<close>.
\<close>

theorem GetConnection_not_configured_witness:
  "registry_configured
     (ex_pool 2 [(''test-mysql'', ex_entry ''test-mysql'' (Some 7) StateConnected 100 100 0)] 1 0 0)
   \<and> Config_GetConnection
        (manager_config
          (ex_pool 2 [(''test-mysql'', ex_entry ''test-mysql'' (Some 7) StateConnected 100 100 0)] 1 0 0))
        ''non-existent'' = None
   \<and> GetConnection (ex_get_ok 500 9)
        (ex_pool 2 [(''test-mysql'', ex_entry ''test-mysql'' (Some 7) StateConnected 100 100 0)] 1 0 0)
        ''non-existent''
      = (Inl (NotFoundInConfiguration ''non-existent''),
         ex_pool 2 [(''test-mysql'', ex_entry ''test-mysql'' (Some 7) StateConnected 100 100 0)] 1 0 0,
         [])"
proof -
  let ?P = "ex_pool 2 [(''test-mysql'', ex_entry ''test-mysql'' (Some 7) StateConnected 100 100 0)] 1 0 0"
  have h1: "registry_configured ?P"
    by (simp add: registry_configured_def Config_GetConnection_def ex_pool_def ex_config_def)
  have h2: "Config_GetConnection (manager_config ?P) ''non-existent'' = None"
    by (rule ex_lookup)
  from GetConnection_not_configured [OF h1 h2, of "ex_get_ok 500 9"] h1 h2
  show ?thesis by simp
qed

subsection \<open>C8: the status of a name without an entry\<close>

text \<open>
  Claim C8: for a name without a registry entry, \<open>GetConnectionStatus\<close> returns a status
  with state \<open>Disconnected\<close>, zero time stamps, zero durations and error count 0, and the
  pool is unchanged.
\<close>

theorem GetConnectionStatus_absent:
  assumes "map_of (connections p) name = None"
  shows "GetConnectionStatus env p name =
     (\<lparr>status_Name = name, status_State = StateDisconnected,
       status_LastUsed = zeroTime, status_LastPing = zeroTime,
       status_ErrorCount = 0, status_CreatedAt = zeroTime,
       status_IdleTime = 0, status_ConnectedFor = 0\<rparr>, p)"
  using assms by (simp add: GetConnectionStatus_def)

text \<open>
  The status of \<open>non-existent\<close> in a pool that holds the connection \<open>test-mysql\<close>.
\<close>

theorem GetConnectionStatus_absent_witness:
  "map_of (connections
      (ex_pool 2 [(''test-mysql'', ex_entry ''test-mysql'' (Some 7) StateConnected 100 100 0)] 1 0 0))
      ''non-existent'' = None
   \<and> GetConnectionStatus \<lparr>now_idle = 500, now_connectedFor = 500\<rparr>
        (ex_pool 2 [(''test-mysql'', ex_entry ''test-mysql'' (Some 7) StateConnected 100 100 0)] 1 0 0)
        ''non-existent''
      = (\<lparr>status_Name = ''non-existent'', status_State = StateDisconnected,
           status_LastUsed = zeroTime, status_LastPing = zeroTime,
           status_ErrorCount = 0, status_CreatedAt = zeroTime,
           status_IdleTime = 0, status_ConnectedFor = 0\<rparr>,
         ex_pool 2 [(''test-mysql'', ex_entry ''test-mysql'' (Some 7) StateConnected 100 100 0)] 1 0 0)"
proof -
  let ?P = "ex_pool 2 [(''test-mysql'', ex_entry ''test-mysql'' (Some 7) StateConnected 100 100 0)] 1 0 0"
  have h: "map_of (connections ?P) ''non-existent'' = None"
    by (simp add: ex_pool_def)
  from GetConnectionStatus_absent [OF h, of "\<lparr>now_idle = 500, now_connectedFor = 500\<rparr>"] h
  show ?thesis by simp
qed

subsection \<open>C9: the metrics agree with the registry\<close>

text \<open>
  Claim C9: \<open>GetPoolMetrics\<close> leaves the pool unchanged and reports the number of
  entries, the number of \<open>Connected\<close> entries and the number of \<open>Error\<close> entries; read
  as signed 64-bit numbers (a registry has fewer than \<open>2^63\<close> entries), the connected and
  error counts add up to at most the number of active connections.
\<close>

theorem GetPoolMetrics_consistent:
  "snd (GetPoolMetrics p) = p
   \<and> metrics_ActiveConnections (fst (GetPoolMetrics p)) = of_nat (length (connections p))
   \<and> metrics_ConnectedCount (fst (GetPoolMetrics p))
       = of_nat (inState StateConnected (connections p))
   \<and> metrics_ErrorCount (fst (GetPoolMetrics p))
       = of_nat (inState StateError (connections p))
   \<and> (length (connections p) < 2 ^ 63 \<longrightarrow>
        sint (metrics_ActiveConnections (fst (GetPoolMetrics p))) = int (length (connections p))
        \<and> sint (metrics_ConnectedCount (fst (GetPoolMetrics p)))
            = int (inState StateConnected (connections p))
        \<and> sint (metrics_ErrorCount (fst (GetPoolMetrics p)))
            = int (inState StateError (connections p))
        \<and> sint (metrics_ConnectedCount (fst (GetPoolMetrics p)))
            + sint (metrics_ErrorCount (fst (GetPoolMetrics p)))
            \<le> sint (metrics_ActiveConnections (fst (GetPoolMetrics p))))"
proof -
  let ?n = "length (connections p)"
  let ?c = "inState StateConnected (connections p)"
  let ?e = "inState StateError (connections p)"
  have m: "GetPoolMetrics p =
     (\<lparr>metrics_TotalConnections = totalConnections p,
       metrics_ActiveConnections = of_nat ?n,
       metrics_ConnectedCount = of_nat ?c,
       metrics_ErrorCount = of_nat ?e,
       metrics_SuccessfulPings = successfulPings p,
       metrics_FailedPings = failedPings p,
       metrics_PingInterval = pingInterval p,
       metrics_MaxIdleTime = maxIdleTime p\<rparr>, p)"
    by (simp add: GetPoolMetrics_def countStates_acc)
  have le: "?c + ?e \<le> ?n" by (rule inState_sum)
  have bounded: "sint (of_nat ?n :: 64 word) = int ?n \<and> sint (of_nat ?c :: 64 word) = int ?c
      \<and> sint (of_nat ?e :: 64 word) = int ?e" if "?n < 2 ^ 63"
  proof -
    from le that have "?c < 2 ^ 63" and "?e < 2 ^ 63" by linarith+
    with that show ?thesis by (simp add: sint_of_nat_64)
  qed
  show ?thesis
    unfolding m using le bounded by auto
qed

text \<open>
  The pool of \<open>TestGetPoolMetrics\<close>: three entries, two \<open>Connected\<close> and one in
  \<open>Error\<close> state.
\<close>

theorem GetPoolMetrics_consistent_witness:
  "length (connections ex_metrics_pool) < 2 ^ 63
   \<and> sint (metrics_ActiveConnections (fst (GetPoolMetrics ex_metrics_pool))) = 3
   \<and> sint (metrics_ConnectedCount (fst (GetPoolMetrics ex_metrics_pool))) = 2
   \<and> sint (metrics_ErrorCount (fst (GetPoolMetrics ex_metrics_pool))) = 1
   \<and> sint (metrics_ConnectedCount (fst (GetPoolMetrics ex_metrics_pool)))
       + sint (metrics_ErrorCount (fst (GetPoolMetrics ex_metrics_pool)))
       \<le> sint (metrics_ActiveConnections (fst (GetPoolMetrics ex_metrics_pool)))"
proof -
  have n: "length (connections ex_metrics_pool) = 3"
    by (simp add: ex_metrics_pool_def ex_pool_def)
  have c: "inState StateConnected (connections ex_metrics_pool) = 2"
    and e: "inState StateError (connections ex_metrics_pool) = 1"
    by (simp_all add: inState_def ex_metrics_pool_def ex_pool_def ex_entry_def)
  have h: "length (connections ex_metrics_pool) < 2 ^ 63"
    unfolding n by simp
  from GetPoolMetrics_consistent [of ex_metrics_pool] h
  show ?thesis by (simp add: n c e)
qed

subsection \<open>C10: the creation path forgets the old entry\<close>

text \<open>
  Claim C10: when \<open>GetConnection\<close> takes the creation path for a name that has an entry,
  the entry afterwards is built from the configuration, the clock and the outcome of the
  call alone, and nothing of the old entry remains; after a failed call the error count
  of the entry is 1, also after any number of earlier calls.
\<close>

theorem createConnection_discards_old_entry:
  assumes inv: "registry_configured p"
  shows
    "(map_of (connections p) name = Some old \<and> \<not> fastPath p name
        \<and> GetConnection env p name = (r, p', evs)
      \<longrightarrow> (\<exists>cc. Config_GetConnection (manager_config p) name = Some cc
            \<and> map_of (connections p') name =
                Some \<lparr>Name = name,
                      DB = (case r of Inl e \<Rightarrow> None | Inr db \<Rightarrow> Some db),
                      Config = cc,
                      State = (case r of Inl e \<Rightarrow> StateError | Inr db \<Rightarrow> StateConnected),
                      LastUsed = now_lastUsed env,
                      LastPing = (case r of Inl e \<Rightarrow> zeroTime | Inr db \<Rightarrow> now_lastPing env),
                      ErrorCount = (case r of Inl e \<Rightarrow> 1 | Inr db \<Rightarrow> 0),
                      CreatedAt = now_createdAt env\<rparr>))
     \<and> (GetConnection env p name = (Inl err, p', evs)
          \<and> map_of (connections p') name = Some c
        \<longrightarrow> ErrorCount c = 1)
     \<and> (GetConnection env
            (foldl (\<lambda>q env'. fst (snd (GetConnection env' q name))) p envs) name
            = (Inl err, p', evs)
          \<and> map_of (connections p') name = Some c
        \<longrightarrow> ErrorCount c = 1)"
proof -
  have fresh: "map_of (connections p) name = Some old \<and> \<not> fastPath p name
        \<and> GetConnection env p name = (r, p', evs)
      \<longrightarrow> (\<exists>cc. Config_GetConnection (manager_config p) name = Some cc
            \<and> map_of (connections p') name =
                Some \<lparr>Name = name,
                      DB = (case r of Inl e \<Rightarrow> None | Inr db \<Rightarrow> Some db),
                      Config = cc,
                      State = (case r of Inl e \<Rightarrow> StateError | Inr db \<Rightarrow> StateConnected),
                      LastUsed = now_lastUsed env,
                      LastPing = (case r of Inl e \<Rightarrow> zeroTime | Inr db \<Rightarrow> now_lastPing env),
                      ErrorCount = (case r of Inl e \<Rightarrow> 1 | Inr db \<Rightarrow> 0),
                      CreatedAt = now_createdAt env\<rparr>)"
  proof
    assume a: "map_of (connections p) name = Some old \<and> \<not> fastPath p name
        \<and> GetConnection env p name = (r, p', evs)"
    let ?q = "touched env p name"
    from a inv obtain cc where cfg: "Config_GetConnection (manager_config p) name = Some cc"
      using present_configured by blast
    then have cfg': "Config_GetConnection (manager_config ?q) name = Some cc"
      by (simp add: touched_fields)
    from a have "createConnection env ?q name = (r, p', evs)"
      using GetConnection_slow [of p name env] by simp
    from createConnection_entry [OF cfg' this] cfg
    show "\<exists>cc. Config_GetConnection (manager_config p) name = Some cc
            \<and> map_of (connections p') name =
                Some \<lparr>Name = name,
                      DB = (case r of Inl e \<Rightarrow> None | Inr db \<Rightarrow> Some db),
                      Config = cc,
                      State = (case r of Inl e \<Rightarrow> StateError | Inr db \<Rightarrow> StateConnected),
                      LastUsed = now_lastUsed env,
                      LastPing = (case r of Inl e \<Rightarrow> zeroTime | Inr db \<Rightarrow> now_lastPing env),
                      ErrorCount = (case r of Inl e \<Rightarrow> 1 | Inr db \<Rightarrow> 0),
                      CreatedAt = now_createdAt env\<rparr>"
      by blast
  qed
  have once: "GetConnection env p name = (Inl err, p', evs)
          \<and> map_of (connections p') name = Some c
        \<longrightarrow> ErrorCount c = 1"
    using GetConnection_failed_count [OF inv] by blast
  have inv': "registry_configured
      (foldl (\<lambda>q env'. fst (snd (GetConnection env' q name))) p envs)"
    using inv by (rule GetConnections_configured)
  have many: "GetConnection env
            (foldl (\<lambda>q env'. fst (snd (GetConnection env' q name))) p envs) name
            = (Inl err, p', evs)
          \<and> map_of (connections p') name = Some c
        \<longrightarrow> ErrorCount c = 1"
    using GetConnection_failed_count [OF inv'] by blast
  from fresh once many show ?thesis by (intro conjI)
qed

text \<open>
  A failed call on a pool whose entry already records a failure, and a third failed call
  after two earlier ones: the error count is 1 each time.
\<close>

theorem createConnection_discards_old_entry_witness:
  "registry_configured
     (ex_pool 2 [(''test-mysql'', ex_entry ''test-mysql'' None StateError 100 zeroTime 1)] 0 0 0)
   \<and> map_of (connections
        (ex_pool 2 [(''test-mysql'', ex_entry ''test-mysql'' None StateError 100 zeroTime 1)] 0 0 0))
        ''test-mysql'' = Some (ex_entry ''test-mysql'' None StateError 100 zeroTime 1)
   \<and> \<not> fastPath
        (ex_pool 2 [(''test-mysql'', ex_entry ''test-mysql'' None StateError 100 zeroTime 1)] 0 0 0)
        ''test-mysql''
   \<and> GetConnection (ex_get_nocred 300)
        (ex_pool 2 [(''test-mysql'', ex_entry ''test-mysql'' None StateError 100 zeroTime 1)] 0 0 0)
        ''test-mysql''
     = (Inl (FailedToGetCredentials ''test-mysql'' (Collaborator ''credential not found'')),
        ex_pool 2 [(''test-mysql'', ex_entry ''test-mysql'' None StateError 300 zeroTime 1)] 0 0 0,
        [])
   \<and> (\<exists>cc. Config_GetConnection (manager_config
          (ex_pool 2 [(''test-mysql'', ex_entry ''test-mysql'' None StateError 100 zeroTime 1)] 0 0 0))
          ''test-mysql'' = Some cc
        \<and> map_of (connections
            (ex_pool 2 [(''test-mysql'', ex_entry ''test-mysql'' None StateError 300 zeroTime 1)] 0 0 0))
            ''test-mysql''
          = Some \<lparr>Name = ''test-mysql'', DB = None, Config = cc, State = StateError,
                  LastUsed = 300, LastPing = zeroTime, ErrorCount = 1, CreatedAt = 300\<rparr>)
   \<and> ErrorCount (ex_entry ''test-mysql'' None StateError 300 zeroTime 1) = 1
   \<and> registry_configured (ex_pool 2 [] 0 0 0)
   \<and> GetConnection (ex_get_nocred 300)
        (foldl (\<lambda>q env'. fst (snd (GetConnection env' q ''test-mysql''))) (ex_pool 2 [] 0 0 0)
           [ex_get_nocred 100, ex_get_nocred 200])
        ''test-mysql''
     = (Inl (FailedToGetCredentials ''test-mysql'' (Collaborator ''credential not found'')),
        ex_pool 2 [(''test-mysql'', ex_entry ''test-mysql'' None StateError 300 zeroTime 1)] 0 0 0,
        [])"
proof -
  let ?e1 = "ex_entry ''test-mysql'' None StateError 100 zeroTime 1"
  let ?e3 = "ex_entry ''test-mysql'' None StateError 300 zeroTime 1"
  let ?P0 = "ex_pool 2 [] 0 0 0"
  let ?P1 = "ex_pool 2 [(''test-mysql'', ?e1)] 0 0 0"
  let ?P3 = "ex_pool 2 [(''test-mysql'', ?e3)] 0 0 0"
  let ?E = "FailedToGetCredentials ''test-mysql'' (Collaborator ''credential not found'')"
  have inv1: "registry_configured ?P1"
    by (simp add: registry_configured_def Config_GetConnection_def ex_pool_def ex_config_def)
  have inv0: "registry_configured ?P0"
    by (simp add: registry_configured_def ex_pool_def)
  have look1: "map_of (connections ?P1) ''test-mysql'' = Some ?e1" by (simp add: ex_pool_def)
  have look3: "map_of (connections ?P3) ''test-mysql'' = Some ?e3" by (simp add: ex_pool_def)
  have slow: "\<not> fastPath ?P1 ''test-mysql''"
    by (simp add: fastPath_def ex_pool_def ex_entry_def)
  have call: "GetConnection (ex_get_nocred 300) ?P1 ''test-mysql'' = (Inl ?E, ?P3, [])"
    by (rule ex_retry_nocred)
  have calls: "GetConnection (ex_get_nocred 300)
        (foldl (\<lambda>q env'. fst (snd (GetConnection env' q ''test-mysql''))) ?P0
           [ex_get_nocred 100, ex_get_nocred 200])
        ''test-mysql'' = (Inl ?E, ?P3, [])"
    by (simp add: ex_create_nocred ex_retry_nocred)
  have now: "now_lastUsed (ex_get_nocred 300) = 300" "now_createdAt (ex_get_nocred 300) = 300"
    by (simp_all add: ex_get_nocred_def)
  note t1 = createConnection_discards_old_entry [OF inv1,
      where name = "''test-mysql''" and old = ?e1 and env = "ex_get_nocred 300"
        and r = "Inl ?E" and p' = ?P3 and evs = "[]" and err = ?E and c = ?e3 and envs = "[]"]
  note t0 = createConnection_discards_old_entry [OF inv0,
      where name = "''test-mysql''" and env = "ex_get_nocred 300" and p' = ?P3
        and evs = "[]" and err = ?E and c = ?e3
        and envs = "[ex_get_nocred 100, ex_get_nocred 200]"]
  from t1 look1 slow call
  have fresh: "\<exists>cc. Config_GetConnection (manager_config ?P1) ''test-mysql'' = Some cc
        \<and> map_of (connections ?P3) ''test-mysql''
          = Some \<lparr>Name = ''test-mysql'', DB = None, Config = cc, State = StateError,
                  LastUsed = 300, LastPing = zeroTime, ErrorCount = 1, CreatedAt = 300\<rparr>"
    unfolding now by simp
  from t0 calls look3 have count: "ErrorCount ?e3 = 1" by blast
  from inv1 look1 slow call fresh count inv0 calls show ?thesis by (intro conjI)
qed

end
